theory Spec2Isabelle
  imports Main
begin

section \<open>Python values and string primitives used by \<open>dataset_manager.py\<close>\<close>

text \<open>
  Strings are ASCII text (\<open>string\<close>, one \<open>char\<close> per character). The
  exceptions the code can raise are values of \<open>error\<close>; a function that can raise
  returns \<open>error + 'a\<close> with \<open>Inl\<close> for the exception.

  \<open>Beyond_model\<close> is not a Python exception. It marks the replacement fields of
  \<open>str.format\<close> that this development does not interpret (conversions \<open>!r\<close>, format
  specifications \<open>:...\<close>, attribute and index access, positional indices of more than 18
  digits): for those the model makes no statement about what Python does. Of a call
  that meets such a field the theorems below state only what holds whatever Python
  does with it.
\<close>

datatype error =
    KeyError string
  | IndexError
  | ValueError string
  | EngineError
  | Beyond_model

datatype pyval = PyNone | PyStr string

fun py_str :: "pyval \<Rightarrow> string" where
  "py_str PyNone = ''None''"
| "py_str (PyStr s) = s"

fun of_optional :: "string option \<Rightarrow> pyval" where
  "of_optional None = PyNone"
| "of_optional (Some s) = PyStr s"

text \<open>\<open>a or b\<close> on optional strings: \<open>None\<close> and the empty string are falsy.\<close>

fun py_or :: "string option \<Rightarrow> string option \<Rightarrow> string option" where
  "py_or None b = b"
| "py_or (Some s) b = (if s = [] then b else Some s)"

text \<open>\<open>s.replace(old, new)\<close> for a non-empty \<open>old\<close>: non-overlapping occurrences,
  left to right.\<close>

function (sequential) str_replace :: "string \<Rightarrow> string \<Rightarrow> string \<Rightarrow> string" where
  "str_replace old new [] = []"
| "str_replace old new (c # cs) =
     (if old \<noteq> [] \<and> take (length old) (c # cs) = old
      then new @ str_replace old new (drop (length old) (c # cs))
      else c # str_replace old new cs)"
  by pat_completeness auto
termination
  by (relation "measure (\<lambda>(old, new, s). length s)") auto

text \<open>\<open>s.replace(old, new)\<close>; with an empty \<open>old\<close> Python inserts \<open>new\<close> before every
  character and at the end.\<close>

definition py_replace :: "string \<Rightarrow> string \<Rightarrow> string \<Rightarrow> string" where
  "py_replace s old new =
     (if old = [] then new @ concat (map (\<lambda>c. c # new) s) else str_replace old new s)"

text \<open>\<open>s.split(sep)\<close> for a one-character separator: never an empty list.\<close>

fun py_split :: "char \<Rightarrow> string \<Rightarrow> string list" where
  "py_split sep [] = [[]]"
| "py_split sep (c # cs) =
     (if c = sep then [] # py_split sep cs
      else (case py_split sep cs of [] \<Rightarrow> [[c]] | w # ws \<Rightarrow> (c # w) # ws))"

text \<open>\<open>xs[i]\<close> for \<open>i \<ge> 0\<close>: \<open>IndexError\<close> out of range.\<close>

definition py_index :: "'a list \<Rightarrow> nat \<Rightarrow> error + 'a" where
  "py_index xs i = (if i < length xs then Inr (xs ! i) else Inl IndexError)"

text \<open>\<open>s.split(sep)[0]\<close>: the index is always in range, since a split has at least one
  part (lemma \<open>py_split_not_Nil\<close> below).\<close>

definition split_first :: "char \<Rightarrow> string \<Rightarrow> string" where
  "split_first sep s = (case py_split sep s of [] \<Rightarrow> [] | w # ws \<Rightarrow> w)"

subsection \<open>\<open>str.format(**kwargs)\<close>\<close>

text \<open>
  The scanner of CPython's \<open>str.format\<close> (version 3.5 and later), called with keyword
  arguments only. Text outside braces is copied, \<open>{{\<close> and \<open>}}\<close> stand for one brace, and
  \<open>{name}\<close> is replaced by \<open>str\<close> of the keyword argument \<open>name\<close>. The first problem
  from the left decides the exception.

  \<open>parse_field acc cs\<close> reads a field name up to its closing brace and returns it with
  the rest of the input.
\<close>

fun parse_field :: "string \<Rightarrow> string \<Rightarrow> error + (string \<times> string)" where
  "parse_field acc [] = Inl (ValueError ''expected '}' before end of string'')"
| "parse_field acc (c # cs) =
     (if c = CHR ''}'' then Inr (rev acc, cs)
      else if c = CHR ''{'' then Inl (ValueError ''unexpected '{' in field name'')
      else if c = CHR ''['' \<or> c = CHR '':'' \<or> c = CHR ''!'' then Inl Beyond_model
      else parse_field (c # acc) cs)"

definition is_digit :: "char \<Rightarrow> bool" where
  "is_digit c = (c \<in> set ''0123456789'')"

text \<open>
  The value of one field. An empty name (automatic numbering) and an all-digit name
  (a positional index) look into the positional arguments, of which there are none:
  \<open>IndexError\<close>. Any other name is looked up among the keyword arguments.
\<close>

definition get_field :: "(string \<rightharpoonup> pyval) \<Rightarrow> string \<Rightarrow> error + string" where
  "get_field kwargs name =
     (if CHR ''.'' \<in> set name then Inl Beyond_model
      else if list_all is_digit name
        then (if length name \<le> 18 then Inl IndexError else Inl Beyond_model)
      else (case kwargs name of
              None \<Rightarrow> Inl (KeyError name)
            | Some v \<Rightarrow> Inr (py_str v)))"

lemma parse_field_shorter:
  "parse_field acc cs = Inr (name, rest) \<Longrightarrow> length rest < length cs"
  by (induction cs arbitrary: acc) (auto split: if_splits intro: less_SucI)

function (sequential) format_py :: "(string \<rightharpoonup> pyval) \<Rightarrow> string \<Rightarrow> error + string" where
  "format_py kwargs [] = Inr []"
| "format_py kwargs (c # cs) =
     (if c = CHR ''{'' then
        (case cs of
           [] \<Rightarrow> Inl (ValueError ''Single '{' encountered in format string'')
         | d # ds \<Rightarrow>
             if d = CHR ''{'' then
               (case format_py kwargs ds of
                  Inl err \<Rightarrow> Inl err
                | Inr out \<Rightarrow> Inr (CHR ''{'' # out))
             else
               (case parse_field [] cs of
                  Inl err \<Rightarrow> Inl err
                | Inr (name, rest) \<Rightarrow>
                    (case get_field kwargs name of
                       Inl err \<Rightarrow> Inl err
                     | Inr v \<Rightarrow>
                         (case format_py kwargs rest of
                            Inl err \<Rightarrow> Inl err
                          | Inr out \<Rightarrow> Inr (v @ out)))))
      else if c = CHR ''}'' then
        (case cs of
           [] \<Rightarrow> Inl (ValueError ''Single '}' encountered in format string'')
         | d # ds \<Rightarrow>
             if d = CHR ''}'' then
               (case format_py kwargs ds of
                  Inl err \<Rightarrow> Inl err
                | Inr out \<Rightarrow> Inr (CHR ''}'' # out))
             else Inl (ValueError ''Single '}' encountered in format string''))
      else
        (case format_py kwargs cs of
           Inl err \<Rightarrow> Inl err
         | Inr out \<Rightarrow> Inr (c # out)))"
  by pat_completeness auto
termination
  by (relation "measure (\<lambda>(kwargs, s). length s)")
     (auto simp del: parse_field.simps dest: parse_field_shorter)

section \<open>Partition suffix\<close>

text \<open>\<open>get_partition_from_run_datetime_or_none\<close>: \<open>run_datetime[:10].replace('-', '')\<close>,
  and \<open>None\<close> for \<open>None\<close>.\<close>

fun get_partition_from_run_datetime_or_none :: "string option \<Rightarrow> string option" where
  "get_partition_from_run_datetime_or_none None = None"
| "get_partition_from_run_datetime_or_none (Some run_datetime) =
     Some (py_replace (take 10 run_datetime) ''-'' '''')"

section \<open>The remote engine\<close>

text \<open>
  The BigQuery client is not code of the repository. It is modelled by what the code
  asks of it: which tables the dataset holds (the answer to the \<open>__TABLES__\<close> count query
  of \<open>table_exists\<close>), which requests it turns down (\<open>job.result()\<close> raises), the rows
  a query returns, and the log of the requests it has received. What a job does to the
  dataset is the engine's business: the theorems below hold for every engine state.
\<close>

datatype request =
    Write string string string  \<comment> \<open>destination, sql, write disposition\<close>
  | Read string
  | Ddl string
  | Delete_dataset

record engine =
  tables :: "string list"
  refuses :: "request \<Rightarrow> bool"
  rows :: "string \<Rightarrow> string list"
  requests :: "request list"

datatype reply = Done | Rows "string list" | Exists bool

definition submit :: "engine \<Rightarrow> request \<Rightarrow> reply \<Rightarrow> (error + reply) \<times> engine" where
  "submit e r ok =
     (if refuses e r then Inl EngineError else Inr ok, e\<lparr>requests := requests e @ [r]\<rparr>)"

section \<open>\<open>DatasetManager\<close>\<close>

record dataset_manager =
  dataset_id :: string

definition dm_write :: "engine \<Rightarrow> string \<Rightarrow> string \<Rightarrow> string \<Rightarrow> (error + reply) \<times> engine" where
  "dm_write e table_id sql mode = submit e (Write table_id sql mode) Done"

definition dm_table_exists :: "engine \<Rightarrow> string \<Rightarrow> bool" where
  "dm_table_exists e table_name = (table_name \<in> set (tables e))"

text \<open>The first line of \<open>table_exists_or_error\<close>: the table name looked up is
  \<open>table_id.split('$')[0].split('.')[2]\<close>.\<close>

definition base_table :: "string \<Rightarrow> error + string" where
  "base_table table_id = py_index (py_split CHR ''.'' (split_first CHR ''$'' table_id)) 2"

definition table_exists_or_error :: "engine \<Rightarrow> string \<Rightarrow> error + unit" where
  "table_exists_or_error e table_id =
     (case base_table table_id of
        Inl err \<Rightarrow> Inl err
      | Inr table_name \<Rightarrow>
          if \<not> dm_table_exists e table_name
          then Inl (ValueError (''Table '' @ table_id @ '' does not exist''))
          else Inr ())"

definition dm_write_tmp :: "engine \<Rightarrow> string \<Rightarrow> string \<Rightarrow> (error + reply) \<times> engine" where
  "dm_write_tmp e table_id sql = dm_write e table_id sql ''WRITE_TRUNCATE''"

definition dm_write_truncate :: "engine \<Rightarrow> string \<Rightarrow> string \<Rightarrow> (error + reply) \<times> engine" where
  "dm_write_truncate e table_id sql =
     (case table_exists_or_error e table_id of
        Inl err \<Rightarrow> (Inl err, e)
      | Inr u \<Rightarrow> dm_write e table_id sql ''WRITE_TRUNCATE'')"

definition dm_write_append :: "engine \<Rightarrow> string \<Rightarrow> string \<Rightarrow> (error + reply) \<times> engine" where
  "dm_write_append e table_id sql =
     (case table_exists_or_error e table_id of
        Inl err \<Rightarrow> (Inl err, e)
      | Inr u \<Rightarrow> dm_write e table_id sql ''WRITE_APPEND'')"

definition dm_create_table :: "engine \<Rightarrow> string \<Rightarrow> (error + reply) \<times> engine" where
  "dm_create_table e create_query = submit e (Ddl create_query) Done"

definition dm_collect :: "engine \<Rightarrow> string \<Rightarrow> (error + reply) \<times> engine" where
  "dm_collect e sql = submit e (Read sql) (Rows (rows e sql))"

definition dm_remove_dataset :: "engine \<Rightarrow> (error + reply) \<times> engine" where
  "dm_remove_dataset e = submit e Delete_dataset Done"

section \<open>\<open>TemplatedDatasetManager\<close>\<close>

record templated_dataset_manager =
  dataset_manager :: dataset_manager
  internal_tables :: "string \<rightharpoonup> string"
  external_tables :: "string \<rightharpoonup> string"
  extras :: "string \<rightharpoonup> pyval"
  run_datetime :: "string option"

type_synonym dm_callable = "engine \<Rightarrow> string \<Rightarrow> string \<Rightarrow> (error + reply) \<times> engine"

definition create_full_table_id :: "dataset_manager \<Rightarrow> string \<Rightarrow> string" where
  "create_full_table_id dm table_name = dataset_id dm @ ''.'' @ table_name"

definition create_table_id :: "templated_dataset_manager \<Rightarrow> string \<Rightarrow> string" where
  "create_table_id s table_name =
     (let table_name_without_partition = split_first CHR ''$'' table_name
      in py_replace table_name table_name_without_partition
           (create_full_table_id (dataset_manager s) table_name_without_partition))"

text \<open>The constructor: every name of \<open>internal_tables\<close> is mapped to its full id.\<close>

definition templated_init ::
  "dataset_manager \<Rightarrow> string list \<Rightarrow> (string \<rightharpoonup> string) \<Rightarrow> (string \<rightharpoonup> pyval) \<Rightarrow> string option
     \<Rightarrow> templated_dataset_manager" where
  "templated_init dm names ext xs runtime =
     \<lparr>dataset_manager = dm,
      internal_tables = (\<lambda>t. if t \<in> set names then Some (create_full_table_id dm t) else None),
      external_tables = ext,
      extras = xs,
      run_datetime = runtime\<rparr>"

text \<open>\<open>template_variables\<close>: three \<open>dict.update\<close> calls in this order, then \<open>dt\<close>.\<close>

definition template_variables ::
  "templated_dataset_manager \<Rightarrow> string option \<Rightarrow> (string \<rightharpoonup> pyval)" where
  "template_variables s custom_run_datetime =
     (let result = Map.empty;
          result = result ++ (map_option PyStr \<circ> internal_tables s);
          result = result ++ (map_option PyStr \<circ> external_tables s);
          result = result ++ extras s
      in result(''dt'' \<mapsto> of_optional (py_or custom_run_datetime (run_datetime s))))"

text \<open>\<open>write\<close>: the arguments of \<open>write_callable\<close> are evaluated first, so the SQL is
  rendered before the callable runs.\<close>

definition tdm_write ::
  "templated_dataset_manager \<Rightarrow> engine \<Rightarrow> dm_callable \<Rightarrow> string \<Rightarrow> string \<Rightarrow> string option
     \<Rightarrow> (error + reply) \<times> engine" where
  "tdm_write s e write_callable table_name sql custom_run_datetime =
     (let table_id = create_table_id s table_name
      in case format_py (template_variables s custom_run_datetime) sql of
           Inl err \<Rightarrow> (Inl err, e)
         | Inr rendered \<Rightarrow> write_callable e table_id rendered)"

type_synonym tdm_result = "(error + reply) \<times> templated_dataset_manager \<times> engine"

definition tdm_write_truncate ::
  "templated_dataset_manager \<Rightarrow> engine \<Rightarrow> string \<Rightarrow> string \<Rightarrow> string option \<Rightarrow> tdm_result" where
  "tdm_write_truncate s e table_name sql custom_run_datetime =
     (let (r, e') = tdm_write s e dm_write_truncate table_name sql custom_run_datetime
      in (r, s, e'))"

definition tdm_write_append ::
  "templated_dataset_manager \<Rightarrow> engine \<Rightarrow> string \<Rightarrow> string \<Rightarrow> string option \<Rightarrow> tdm_result" where
  "tdm_write_append s e table_name sql custom_run_datetime =
     (let (r, e') = tdm_write s e dm_write_append table_name sql custom_run_datetime
      in (r, s, e'))"

definition tdm_write_tmp ::
  "templated_dataset_manager \<Rightarrow> engine \<Rightarrow> string \<Rightarrow> string \<Rightarrow> string option \<Rightarrow> tdm_result" where
  "tdm_write_tmp s e table_name sql custom_run_datetime =
     (let s' = s\<lparr>internal_tables := (internal_tables s)(table_name \<mapsto> create_table_id s table_name)\<rparr>;
          (r, e') = tdm_write s' e dm_write_tmp table_name sql custom_run_datetime
      in (r, s', e'))"

definition tdm_collect ::
  "templated_dataset_manager \<Rightarrow> engine \<Rightarrow> string \<Rightarrow> string option \<Rightarrow> tdm_result" where
  "tdm_collect s e sql custom_run_datetime =
     (case format_py (template_variables s custom_run_datetime) sql of
        Inl err \<Rightarrow> (Inl err, s, e)
      | Inr rendered \<Rightarrow> (let (r, e') = dm_collect e rendered in (r, s, e')))"

definition tdm_remove_dataset :: "templated_dataset_manager \<Rightarrow> engine \<Rightarrow> tdm_result" where
  "tdm_remove_dataset s e = (let (r, e') = dm_remove_dataset e in (r, s, e'))"

definition tdm_create_table :: "templated_dataset_manager \<Rightarrow> engine \<Rightarrow> string \<Rightarrow> tdm_result" where
  "tdm_create_table s e create_query = (let (r, e') = dm_create_table e create_query in (r, s, e'))"

definition tdm_table_exists :: "templated_dataset_manager \<Rightarrow> engine \<Rightarrow> string \<Rightarrow> bool" where
  "tdm_table_exists s e table_name = dm_table_exists e table_name"

section \<open>\<open>PartitionedDatasetManager\<close>\<close>

record partitioned_dataset_manager =
  templated :: templated_dataset_manager
  partition :: "string option"

type_synonym tdm_callable =
  "templated_dataset_manager \<Rightarrow> engine \<Rightarrow> string \<Rightarrow> string \<Rightarrow> string option \<Rightarrow> tdm_result"

type_synonym pdm_result = "(error + reply) \<times> partitioned_dataset_manager \<times> engine"

text \<open>
  The first three lines of \<open>_write\<close>: the table name handed to the templating layer.
  \<open>'${partition}'.format(partition=x)\<close> is a dollar sign followed by \<open>str(x)\<close>.
\<close>

definition partitioned_table_name ::
  "partitioned_dataset_manager \<Rightarrow> string \<Rightarrow> bool \<Rightarrow> string option \<Rightarrow> string" where
  "partitioned_table_name p table_name partitioned custom_run_datetime =
     (let custom_partition = get_partition_from_run_datetime_or_none custom_run_datetime
      in if partitioned
         then table_name @ ''$'' @ py_str (of_optional (py_or custom_partition (partition p)))
         else table_name)"

definition pdm_write ::
  "partitioned_dataset_manager \<Rightarrow> engine \<Rightarrow> tdm_callable \<Rightarrow> string \<Rightarrow> string \<Rightarrow> bool
     \<Rightarrow> string option \<Rightarrow> pdm_result" where
  "pdm_write p e write_callable table_name sql partitioned custom_run_datetime =
     (let (r, s', e') =
            write_callable (templated p) e
              (partitioned_table_name p table_name partitioned custom_run_datetime)
              sql custom_run_datetime
      in (r, p\<lparr>templated := s'\<rparr>, e'))"

definition pdm_write_truncate ::
  "partitioned_dataset_manager \<Rightarrow> engine \<Rightarrow> string \<Rightarrow> string \<Rightarrow> bool \<Rightarrow> string option
     \<Rightarrow> pdm_result" where
  "pdm_write_truncate p e table_name sql partitioned custom_run_datetime =
     pdm_write p e tdm_write_truncate table_name sql partitioned custom_run_datetime"

definition pdm_write_append ::
  "partitioned_dataset_manager \<Rightarrow> engine \<Rightarrow> string \<Rightarrow> string \<Rightarrow> bool \<Rightarrow> string option
     \<Rightarrow> pdm_result" where
  "pdm_write_append p e table_name sql partitioned custom_run_datetime =
     pdm_write p e tdm_write_append table_name sql partitioned custom_run_datetime"

definition pdm_write_tmp ::
  "partitioned_dataset_manager \<Rightarrow> engine \<Rightarrow> string \<Rightarrow> string \<Rightarrow> string option \<Rightarrow> pdm_result" where
  "pdm_write_tmp p e table_name sql custom_run_datetime =
     pdm_write p e tdm_write_tmp table_name sql False custom_run_datetime"

definition pdm_collect ::
  "partitioned_dataset_manager \<Rightarrow> engine \<Rightarrow> string \<Rightarrow> string option \<Rightarrow> pdm_result" where
  "pdm_collect p e sql custom_run_datetime =
     (let (r, s', e') = tdm_collect (templated p) e sql custom_run_datetime
      in (r, p\<lparr>templated := s'\<rparr>, e'))"

definition pdm_create_table ::
  "partitioned_dataset_manager \<Rightarrow> engine \<Rightarrow> string \<Rightarrow> pdm_result" where
  "pdm_create_table p e create_query =
     (let (r, s', e') = tdm_create_table (templated p) e create_query
      in (r, p\<lparr>templated := s'\<rparr>, e'))"

definition run_datetime_str :: "partitioned_dataset_manager \<Rightarrow> string option" where
  "run_datetime_str p = run_datetime (templated p)"

definition pdm_remove_dataset :: "partitioned_dataset_manager \<Rightarrow> engine \<Rightarrow> pdm_result" where
  "pdm_remove_dataset p e =
     (let (r, s', e') = tdm_remove_dataset (templated p) e
      in (r, p\<lparr>templated := s'\<rparr>, e'))"

definition pdm_table_exists :: "partitioned_dataset_manager \<Rightarrow> engine \<Rightarrow> string \<Rightarrow> bool" where
  "pdm_table_exists p e table_name = tdm_table_exists (templated p) e table_name"

subsection \<open>The factory\<close>

text \<open>
  \<open>create_dataset_manager\<close>. The dataset's \<open>full_dataset_id\<close> comes from the client
  library, which writes it \<open>project:dataset\<close>; \<open>fresh\<close> stands for \<open>uuid.uuid1().hex\<close>.
  The request that creates the dataset is not part of the session and is left out.
\<close>

definition create_dataset_manager ::
  "string \<Rightarrow> string option \<Rightarrow> string option \<Rightarrow> string list \<Rightarrow> (string \<rightharpoonup> string)
     \<Rightarrow> (string \<rightharpoonup> pyval) \<Rightarrow> string \<Rightarrow> string \<times> partitioned_dataset_manager" where
  "create_dataset_manager project_id runtime dataset_name internal external xs fresh =
     (let dataset_name = (case py_or dataset_name (Some (fresh @ ''_test_case'')) of
                            None \<Rightarrow> [] | Some n \<Rightarrow> n);
          full_dataset_id = project_id @ '':'' @ dataset_name;
          core_dataset_manager = \<lparr>dataset_id = py_replace full_dataset_id '':'' ''.''\<rparr>;
          templated_dataset_manager =
            templated_init core_dataset_manager internal external xs runtime
      in (py_replace full_dataset_id '':'' ''.'',
          \<lparr>templated = templated_dataset_manager,
           partition = get_partition_from_run_datetime_or_none runtime\<rparr>))"

subsection \<open>A session as a sequence of calls\<close>

datatype operation =
    Write_truncate string string bool "string option"
  | Write_append string string bool "string option"
  | Write_tmp string string "string option"
  | Collect string "string option"
  | Create_table string
  | Remove_dataset
  | Table_exists string

fun step :: "partitioned_dataset_manager \<Rightarrow> engine \<Rightarrow> operation \<Rightarrow> pdm_result" where
  "step p e (Write_truncate t sql partitioned c) = pdm_write_truncate p e t sql partitioned c"
| "step p e (Write_append t sql partitioned c) = pdm_write_append p e t sql partitioned c"
| "step p e (Write_tmp t sql c) = pdm_write_tmp p e t sql c"
| "step p e (Collect sql c) = pdm_collect p e sql c"
| "step p e (Create_table q) = pdm_create_table p e q"
| "step p e Remove_dataset = pdm_remove_dataset p e"
| "step p e (Table_exists t) = (Inr (Exists (pdm_table_exists p e t)), p, e)"

text \<open>
  The session object after a sequence of calls. Every call meets the engine in a state of
  its own (the second component), and the caller may go on after an exception: the
  object keeps the state the failed call left.
\<close>

fun session_after ::
  "partitioned_dataset_manager \<Rightarrow> (operation \<times> engine) list \<Rightarrow> partitioned_dataset_manager" where
  "session_after p [] = p"
| "session_after p ((op, e) # calls) = session_after (fst (snd (step p e op))) calls"

section \<open>Notions used in the statements\<close>

text \<open>The destination a facade write hands to \<open>DatasetManager\<close>: the decorated table
  name, qualified by \<open>create_table_id\<close>.\<close>

definition destination ::
  "partitioned_dataset_manager \<Rightarrow> string \<Rightarrow> bool \<Rightarrow> string option \<Rightarrow> string" where
  "destination p table_name partitioned custom_run_datetime =
     create_table_id (templated p)
       (partitioned_table_name p table_name partitioned custom_run_datetime)"

text \<open>The shape both accepted runtime formats share, \<open>YYYY-MM-DD HH:MM:SS\<close> and
  \<open>YYYY-MM-DD\<close>: ten characters \<open>dddd-dd-dd\<close> first.\<close>

fun date_shaped :: "string \<Rightarrow> bool" where
  "date_shaped [y1, y2, y3, y4, s1, m1, m2, s2, d1, d2] =
     (list_all is_digit [y1, y2, y3, y4, m1, m2, d1, d2] \<and> s1 = CHR ''-'' \<and> s2 = CHR ''-'')"
| "date_shaped cs = False"

definition is_runtime :: "string \<Rightarrow> bool" where
  "is_runtime rt = date_shaped (take 10 rt)"

text \<open>The digits of a runtime's date: what \<open>get_partition_from_run_datetime_or_none\<close>
  returns for it.\<close>

definition date_digits :: "string \<Rightarrow> string" where
  "date_digits rt = filter (\<lambda>x. x \<noteq> CHR ''-'') (take 10 rt)"

text \<open>\<open>old\<close> occurs somewhere in \<open>s\<close> as a run of consecutive characters.\<close>

fun occurs_in :: "string \<Rightarrow> string \<Rightarrow> bool" where
  "occurs_in old [] = (old = [])"
| "occurs_in old (c # cs) = (take (length old) (c # cs) = old \<or> occurs_in old cs)"

definition brace_free :: "string \<Rightarrow> bool" where
  "brace_free s = (CHR ''{'' \<notin> set s \<and> CHR ''}'' \<notin> set s)"

text \<open>A string holds an escaped brace, \<open>{{\<close> or \<open>}}\<close>.\<close>

fun doubled_brace :: "string \<Rightarrow> bool" where
  "doubled_brace (a # b # cs) =
     ((a = b \<and> (a = CHR ''{'' \<or> a = CHR ''}'')) \<or> doubled_brace (b # cs))"
| "doubled_brace cs = False"

text \<open>The one kind of call that stores into \<open>internal_tables\<close>.\<close>

fun is_write_tmp :: "operation \<Rightarrow> bool" where
  "is_write_tmp (Write_tmp t sql c) = True"
| "is_write_tmp op = False"

text \<open>A session as the factory builds it, and an engine that holds the given tables,
  turns the given requests down and has received nothing yet.\<close>

definition session_of ::
  "string option \<Rightarrow> string list \<Rightarrow> (string \<rightharpoonup> string) \<Rightarrow> (string \<rightharpoonup> pyval)
     \<Rightarrow> partitioned_dataset_manager" where
  "session_of runtime internal external xs =
     snd (create_dataset_manager ''project'' runtime (Some ''dataset'') internal external xs [])"

definition engine_with :: "string list \<Rightarrow> (request \<Rightarrow> bool) \<Rightarrow> engine" where
  "engine_with ts turned_down =
     \<lparr>tables = ts, refuses = turned_down, rows = (\<lambda>q. []), requests = []\<rparr>"

section \<open>Facts about the string primitives\<close>

lemma py_split_not_Nil: "py_split sep s \<noteq> []"
  by (induction s) (auto split: list.splits)

lemma str_replace_single_char: "str_replace [c] [] s = filter (\<lambda>x. x \<noteq> c) s"
  by (induction s) auto

lemma py_replace_single_char: "py_replace s [c] [] = filter (\<lambda>x. x \<noteq> c) s"
  by (simp add: py_replace_def str_replace_single_char)

lemma py_split_no_sep: "sep \<notin> set a \<Longrightarrow> py_split sep a = [a]"
  by (induction a) auto

lemma py_split_append:
  "sep \<notin> set a \<Longrightarrow> py_split sep (a @ sep # b) = a # py_split sep b"
  by (induction a) auto

lemma split_first_append: "sep \<notin> set a \<Longrightarrow> split_first sep (a @ sep # b) = a"
  by (simp add: split_first_def py_split_append)

lemma str_replace_char_by_char:
  "str_replace [c] [d] s = map (\<lambda>x. if x = c then d else x) s"
  by (induction s) auto

lemma map_absent_char: "c \<notin> set s \<Longrightarrow> map (\<lambda>x. if x = c then d else x) s = s"
  by (induction s) auto

lemma is_digit_not_dash: "is_digit x \<Longrightarrow> x \<noteq> CHR ''-''"
  by (auto simp: is_digit_def)

lemma date_shaped_digits:
  assumes "date_shaped cs"
  shows "length (filter (\<lambda>x. x \<noteq> CHR ''-'') cs) = 8
       \<and> list_all is_digit (filter (\<lambda>x. x \<noteq> CHR ''-'') cs)"
  using assms by (cases cs rule: date_shaped.cases) (simp_all add: is_digit_not_dash)

lemma runtime_partition:
  assumes "is_runtime rt"
  shows "length (filter (\<lambda>x. x \<noteq> CHR ''-'') (take 10 rt)) = 8
       \<and> list_all is_digit (filter (\<lambda>x. x \<noteq> CHR ''-'') (take 10 rt))"
  using assms unfolding is_runtime_def by (rule date_shaped_digits)

lemma parse_field_append:
  "parse_field acc cs = Inr (name, rest) \<Longrightarrow> parse_field acc (cs @ tl0) = Inr (name, rest @ tl0)"
  by (induction cs arbitrary: acc) (auto split: if_splits)

lemma parse_field_suffix:
  "parse_field acc cs = Inr (name, rest) \<Longrightarrow> \<exists>pre. cs = pre @ rest"
proof (induction cs arbitrary: acc)
  case Nil
  then show ?case by simp
next
  case (Cons c cs)
  show ?case
  proof (cases "c = CHR ''}''")
    case True
    with Cons.prems have "rest = cs" by simp
    then have "c # cs = [c] @ rest" by simp
    then show ?thesis by blast
  next
    case False
    with Cons.prems have "parse_field (c # acc) cs = Inr (name, rest)"
      by (simp split: if_splits)
    from Cons.IH [OF this] obtain pre where "cs = pre @ rest" ..
    then have "c # cs = (c # pre) @ rest" by simp
    then show ?thesis by blast
  qed
qed

lemma format_py_append:
  "format_py kw a = Inr a' \<Longrightarrow>
     format_py kw (a @ b) = (case format_py kw b of Inl err \<Rightarrow> Inl err | Inr b' \<Rightarrow> Inr (a' @ b'))"
proof (induction kw a arbitrary: a' rule: format_py.induct)
  case (1 kwargs)
  then show ?case by (simp split: sum.splits)
next
  case (2 kwargs c cs)
  show ?case
  proof (cases "c = CHR ''{''")
    case open_brace: True
    show ?thesis
    proof (cases cs)
      case Nil
      with open_brace "2.prems" show ?thesis by simp
    next
      case (Cons d ds)
      show ?thesis
      proof (cases "d = CHR ''{''")
        case True
        with open_brace Cons "2.prems" obtain out where out: "format_py kwargs ds = Inr out"
          and a': "a' = CHR ''{'' # out"
          by (auto split: sum.splits)
        from "2.IH"(1) [OF open_brace Cons True out] open_brace Cons True a'
        show ?thesis by (simp split: sum.splits)
      next
        case False
        with open_brace Cons "2.prems" obtain name rest v out
          where field: "parse_field [] cs = Inr (name, rest)"
            and v: "get_field kwargs name = Inr v"
            and out: "format_py kwargs rest = Inr out"
            and a': "a' = v @ out"
          by (auto split: sum.splits)
        from field have field': "parse_field [] (cs @ b) = Inr (name, rest @ b)"
          by (rule parse_field_append)
        from "2.IH"(2) [OF open_brace Cons False field refl v out]
        have "format_py kwargs (rest @ b)
            = (case format_py kwargs b of Inl err \<Rightarrow> Inl err | Inr b' \<Rightarrow> Inr (out @ b'))" .
        with open_brace Cons False field' v a' show ?thesis
          by (simp split: sum.splits)
      qed
    qed
  next
    case not_open: False
    show ?thesis
    proof (cases "c = CHR ''}''")
      case close_brace: True
      show ?thesis
      proof (cases cs)
        case Nil
        with close_brace "2.prems" show ?thesis by simp
      next
        case (Cons d ds)
        with close_brace "2.prems" have d: "d = CHR ''}''"
          by (auto split: if_splits)
        with close_brace Cons "2.prems" obtain out where out: "format_py kwargs ds = Inr out"
          and a': "a' = CHR ''}'' # out"
          by (auto split: sum.splits)
        from "2.IH"(3) [OF not_open close_brace Cons d out] close_brace Cons d a'
        show ?thesis by (simp split: sum.splits)
      qed
    next
      case False
      with not_open "2.prems" obtain out where out: "format_py kwargs cs = Inr out"
        and a': "a' = c # out"
        by (auto split: sum.splits)
      from "2.IH"(4) [OF not_open False out] not_open False a'
      show ?thesis by (simp split: sum.splits)
    qed
  qed
qed

lemma format_py_brace_free: "brace_free s \<Longrightarrow> format_py kw s = Inr s"
  by (induction s) (auto simp: brace_free_def)

lemma doubled_brace_Cons: "doubled_brace cs \<Longrightarrow> doubled_brace (c # cs)"
  by (cases cs) auto

lemma doubled_brace_suffix: "doubled_brace ys \<Longrightarrow> doubled_brace (xs @ ys)"
  by (induction xs) (auto intro: doubled_brace_Cons)

lemma get_field_value:
  "get_field kw name = Inr v \<Longrightarrow> \<exists>val. kw name = Some val \<and> v = py_str val"
  by (auto simp: get_field_def split: if_splits option.splits)

lemma format_py_no_escape:
  "format_py kw s = Inr out \<Longrightarrow> \<not> doubled_brace s \<Longrightarrow> \<forall>v\<in>ran kw. brace_free (py_str v)
     \<Longrightarrow> brace_free out"
proof (induction kw s arbitrary: out rule: format_py.induct)
  case (1 kwargs)
  then show ?case by (simp add: brace_free_def)
next
  case (2 kwargs c cs)
  note rendered = "2.prems"(1) and plain = "2.prems"(2) and vals = "2.prems"(3)
  show ?case
  proof (cases "c = CHR ''{''")
    case open_brace: True
    show ?thesis
    proof (cases cs)
      case Nil
      with open_brace rendered show ?thesis by simp
    next
      case (Cons d ds)
      with open_brace plain have not_escape: "d \<noteq> CHR ''{''" by auto
      with open_brace Cons rendered obtain name rest v out'
        where field: "parse_field [] cs = Inr (name, rest)"
          and v: "get_field kwargs name = Inr v"
          and out': "format_py kwargs rest = Inr out'"
          and out: "out = v @ out'"
        by (auto split: sum.splits)
      from parse_field_suffix [OF field] obtain pre where "cs = pre @ rest" ..
      with plain have "\<not> doubled_brace rest"
        using doubled_brace_suffix [of rest "c # pre"] by auto
      from "2.IH"(2) [OF open_brace Cons not_escape field refl v out' this vals]
      have "brace_free out'" .
      moreover from get_field_value [OF v] vals have "brace_free v"
        by (auto simp: ran_def)
      ultimately show ?thesis using out by (auto simp: brace_free_def)
    qed
  next
    case not_open: False
    show ?thesis
    proof (cases "c = CHR ''}''")
      case True
      with rendered plain show ?thesis
        by (cases cs) (auto split: if_splits)
    next
      case False
      with not_open rendered obtain out' where out': "format_py kwargs cs = Inr out'"
        and out: "out = c # out'"
        by (auto split: sum.splits)
      from plain have "\<not> doubled_brace cs"
        using doubled_brace_Cons by blast
      from "2.IH"(4) [OF not_open False out' this vals] not_open False out
      show ?thesis by (simp add: brace_free_def)
    qed
  qed
qed

lemma str_replace_prefix:
  "old \<noteq> [] \<Longrightarrow> str_replace old new (old @ rest) = new @ str_replace old new rest"
  by (cases old) simp_all

lemma str_replace_absent: "\<not> occurs_in old s \<Longrightarrow> str_replace old new s = s"
  by (induction s) auto

lemma runtime_date_digits:
  "is_runtime rt \<Longrightarrow> length (date_digits rt) = 8 \<and> list_all is_digit (date_digits rt)"
  unfolding date_digits_def by (rule runtime_partition)

lemma format_py_dt:
  assumes "kw ''dt'' = Some (PyStr v)"
    and "format_py kw pre = Inr pre'" and "format_py kw post = Inr post'"
  shows "format_py kw (pre @ ''{dt}'' @ post) = Inr (pre' @ v @ post')"
proof -
  from assms(1) have "format_py kw ''{dt}'' = Inr v"
    by (simp add: get_field_def is_digit_def)
  from format_py_append [OF this, of post] assms(3)
  have "format_py kw (''{dt}'' @ post) = Inr (v @ post')" by simp
  with format_py_append [OF assms(2), of "''{dt}'' @ post"] show ?thesis by simp
qed

section \<open>Facts about the write path\<close>

text \<open>What each facade write does, with the three layers unfolded.\<close>

lemma pdm_write_truncate_unfold:
  "pdm_write_truncate p e t sql partitioned c =
     (let table_id = create_table_id (templated p) (partitioned_table_name p t partitioned c)
      in case format_py (template_variables (templated p) c) sql of
           Inl err \<Rightarrow> (Inl err, p, e)
         | Inr q \<Rightarrow>
             (case table_exists_or_error e table_id of
                Inl err \<Rightarrow> (Inl err, p, e)
              | Inr u \<Rightarrow>
                  (if refuses e (Write table_id q ''WRITE_TRUNCATE'') then Inl EngineError else Inr Done,
                   p, e\<lparr>requests := requests e @ [Write table_id q ''WRITE_TRUNCATE'']\<rparr>)))"
  by (simp add: pdm_write_truncate_def pdm_write_def tdm_write_truncate_def tdm_write_def
        dm_write_truncate_def dm_write_def submit_def Let_def split: sum.splits)

lemma pdm_write_append_unfold:
  "pdm_write_append p e t sql partitioned c =
     (let table_id = create_table_id (templated p) (partitioned_table_name p t partitioned c)
      in case format_py (template_variables (templated p) c) sql of
           Inl err \<Rightarrow> (Inl err, p, e)
         | Inr q \<Rightarrow>
             (case table_exists_or_error e table_id of
                Inl err \<Rightarrow> (Inl err, p, e)
              | Inr u \<Rightarrow>
                  (if refuses e (Write table_id q ''WRITE_APPEND'') then Inl EngineError else Inr Done,
                   p, e\<lparr>requests := requests e @ [Write table_id q ''WRITE_APPEND'']\<rparr>)))"
  by (simp add: pdm_write_append_def pdm_write_def tdm_write_append_def tdm_write_def
        dm_write_append_def dm_write_def submit_def Let_def split: sum.splits)

lemma create_table_id_internal_update [simp]:
  "create_table_id (s\<lparr>internal_tables := m\<rparr>) t = create_table_id s t"
  by (simp add: create_table_id_def)

lemma pdm_write_tmp_unfold:
  "pdm_write_tmp p e t sql c =
     (let table_id = create_table_id (templated p) t;
          s' = (templated p)\<lparr>internal_tables := (internal_tables (templated p))(t \<mapsto> table_id)\<rparr>;
          p' = p\<lparr>templated := s'\<rparr>
      in case format_py (template_variables s' c) sql of
           Inl err \<Rightarrow> (Inl err, p', e)
         | Inr q \<Rightarrow>
             (if refuses e (Write table_id q ''WRITE_TRUNCATE'') then Inl EngineError else Inr Done,
              p', e\<lparr>requests := requests e @ [Write table_id q ''WRITE_TRUNCATE'']\<rparr>))"
  by (simp add: pdm_write_tmp_def pdm_write_def tdm_write_tmp_def tdm_write_def
        dm_write_tmp_def dm_write_def submit_def partitioned_table_name_def Let_def split: sum.splits)

text \<open>The example session.\<close>

lemma example_dataset_id:
  "py_replace (''project'' @ '':'' @ ''dataset'') '':'' ''.'' = ''project.dataset''"
  by (simp add: py_replace_def)

lemma session_of_simps:
  "partition (session_of rt internal external xs) = get_partition_from_run_datetime_or_none rt"
  "templated (session_of rt internal external xs) =
     templated_init \<lparr>dataset_id = ''project.dataset''\<rparr> internal external xs rt"
  unfolding session_of_def create_dataset_manager_def Let_def
  by (simp_all add: example_dataset_id del: append.simps)

lemma table_exists_or_error_missing:
  "base_table table_id = Inr base \<Longrightarrow> \<not> dm_table_exists e base \<Longrightarrow>
     table_exists_or_error e table_id = Inl (ValueError (''Table '' @ table_id @ '' does not exist''))"
  by (simp add: table_exists_or_error_def)

lemma example_destination:
  "destination (session_of (Some ''2020-01-01'') internal external xs) ''orders'' True None
     = ''project.dataset.orders$20200101''"
  by (simp add: destination_def session_of_simps templated_init_def create_table_id_def
      partitioned_table_name_def split_first_def py_replace_def create_full_table_id_def)

lemma example_base_table: "base_table ''project.dataset.orders$20200101'' = Inr ''orders''"
  by (simp add: base_table_def split_first_def py_index_def)

lemma factory_dataset_id:
  assumes "CHR '':'' \<notin> set project" "CHR '':'' \<notin> set dataset"
  shows "py_replace (project @ '':'' @ dataset) '':'' ''.'' = project @ ''.'' @ dataset"
  using assms by (simp add: py_replace_def str_replace_char_by_char map_absent_char)

lemma base_table_qualified:
  assumes "CHR ''.'' \<notin> set project" "CHR ''$'' \<notin> set project"
    and "CHR ''.'' \<notin> set dataset" "CHR ''$'' \<notin> set dataset"
    and "CHR ''.'' \<notin> set t" "CHR ''$'' \<notin> set t"
  shows "base_table (project @ ''.'' @ dataset @ ''.'' @ t @ ''$'' @ suffix) = Inr t"
proof -
  have "split_first CHR ''$'' ((project @ ''.'' @ dataset @ ''.'' @ t) @ CHR ''$'' # suffix)
          = project @ ''.'' @ dataset @ ''.'' @ t"
    using assms by (intro split_first_append) simp
  moreover have "py_split CHR ''.'' (project @ CHR ''.'' # (dataset @ CHR ''.'' # t))
          = [project, dataset, t]"
    using assms by (simp add: py_split_append py_split_no_sep)
  ultimately show ?thesis by (simp add: base_table_def py_index_def)
qed

lemma step_session:
  "fst (snd (step p e op)) =
     (case op of
        Write_tmp t sql c \<Rightarrow>
          p\<lparr>templated := (templated p)\<lparr>internal_tables :=
               (internal_tables (templated p))(t \<mapsto> create_table_id (templated p) t)\<rparr>\<rparr>
      | _ \<Rightarrow> p)"
proof (cases op)
  case (Write_truncate t sql partitioned c)
  then show ?thesis
    by (simp add: pdm_write_truncate_unfold Let_def split: sum.splits)
next
  case (Write_append t sql partitioned c)
  then show ?thesis
    by (simp add: pdm_write_append_unfold Let_def split: sum.splits)
next
  case (Write_tmp t sql c)
  then show ?thesis
    by (simp add: pdm_write_tmp_unfold Let_def split: sum.splits)
next
  case (Collect sql c)
  then show ?thesis
    by (simp add: pdm_collect_def tdm_collect_def dm_collect_def submit_def split: sum.splits)
next
  case (Create_table q)
  then show ?thesis
    by (simp add: pdm_create_table_def tdm_create_table_def dm_create_table_def submit_def)
next
  case Remove_dataset
  then show ?thesis
    by (simp add: pdm_remove_dataset_def tdm_remove_dataset_def dm_remove_dataset_def submit_def)
next
  case (Table_exists t)
  then show ?thesis by simp
qed

lemma step_frame:
  "partition (fst (snd (step p e op))) = partition p"
  "run_datetime (templated (fst (snd (step p e op)))) = run_datetime (templated p)"
  "dataset_manager (templated (fst (snd (step p e op)))) = dataset_manager (templated p)"
  "external_tables (templated (fst (snd (step p e op)))) = external_tables (templated p)"
  "extras (templated (fst (snd (step p e op)))) = extras (templated p)"
  by (simp_all add: step_session split: operation.splits)

lemma create_table_id_dataset_manager:
  "dataset_manager s' = dataset_manager s \<Longrightarrow> create_table_id s' t = create_table_id s t"
  by (simp add: create_table_id_def)

lemma step_internal_tables:
  "internal_tables (templated (fst (snd (step p e op)))) =
     (case op of
        Write_tmp t sql c \<Rightarrow> (internal_tables (templated p))(t \<mapsto> create_table_id (templated p) t)
      | _ \<Rightarrow> internal_tables (templated p))"
  by (simp add: step_session split: operation.splits)

lemma session_after_frame:
  "dataset_manager (templated (session_after p calls)) = dataset_manager (templated p)
   \<and> external_tables (templated (session_after p calls)) = external_tables (templated p)
   \<and> extras (templated (session_after p calls)) = extras (templated p)
   \<and> run_datetime (templated (session_after p calls)) = run_datetime (templated p)
   \<and> partition (session_after p calls) = partition p"
proof (induction calls arbitrary: p)
  case Nil
  then show ?case by simp
next
  case (Cons call calls)
  obtain op e where "call = (op, e)" by (cases call)
  with Cons.IH [of "fst (snd (step p e op))"] show ?case
    by (simp add: step_frame)
qed

lemma session_after_dom:
  "dom (internal_tables (templated p)) \<subseteq> dom (internal_tables (templated (session_after p calls)))"
proof (induction calls arbitrary: p)
  case Nil
  then show ?case by simp
next
  case (Cons call calls)
  obtain op e where call: "call = (op, e)" by (cases call)
  have "dom (internal_tables (templated p))
      \<subseteq> dom (internal_tables (templated (fst (snd (step p e op)))))"
    by (auto simp: step_internal_tables split: operation.splits)
  also note Cons.IH [of "fst (snd (step p e op))"]
  finally show ?case using call by simp
qed

lemma session_after_alias:
  "internal_tables (templated p) t = Some (create_table_id (templated p) t) \<Longrightarrow>
     internal_tables (templated (session_after p calls)) t = Some (create_table_id (templated p) t)"
proof (induction calls arbitrary: p)
  case Nil
  then show ?case by simp
next
  case (Cons call calls)
  obtain op e where call: "call = (op, e)" by (cases call)
  let ?p = "fst (snd (step p e op))"
  have same: "create_table_id (templated ?p) t = create_table_id (templated p) t"
    by (rule create_table_id_dataset_manager) (simp add: step_frame)
  from Cons.prems have "internal_tables (templated ?p) t = Some (create_table_id (templated p) t)"
    by (simp add: step_internal_tables split: operation.splits)
  with same have "internal_tables (templated ?p) t = Some (create_table_id (templated ?p) t)"
    by simp
  from Cons.IH [OF this] same call show ?case by simp
qed

lemma create_table_id_staging:
  "create_table_id s ''staging'' = dataset_id (dataset_manager s) @ ''.staging''"
  by (simp add: create_table_id_def split_first_def py_replace_def create_full_table_id_def)

lemma tdm_write_tmp_unfold:
  "tdm_write_tmp s e t sql c =
     (let table_id = create_table_id s t;
          s' = s\<lparr>internal_tables := (internal_tables s)(t \<mapsto> table_id)\<rparr>
      in case format_py (template_variables s' c) sql of
           Inl err \<Rightarrow> (Inl err, s', e)
         | Inr q \<Rightarrow>
             (if refuses e (Write table_id q ''WRITE_TRUNCATE'') then Inl EngineError else Inr Done,
              s', e\<lparr>requests := requests e @ [Write table_id q ''WRITE_TRUNCATE'']\<rparr>))"
  by (simp add: tdm_write_tmp_def tdm_write_def dm_write_tmp_def dm_write_def submit_def Let_def
      split: sum.splits)

lemma get_partition_date_digits:
  "get_partition_from_run_datetime_or_none (Some rt) = Some (date_digits rt)"
  by (simp add: date_digits_def py_replace_single_char)

lemma create_table_id_plain:
  assumes "CHR ''$'' \<notin> set t"
  shows "create_table_id s t = dataset_id (dataset_manager s) @ ''.'' @ t"
proof -
  from assms have first: "split_first CHR ''$'' t = t"
    by (simp add: split_first_def py_split_no_sep)
  show ?thesis
  proof (cases "t = []")
    case True
    with first show ?thesis
      by (simp add: create_table_id_def py_replace_def create_full_table_id_def)
  next
    case False
    then have "str_replace t (dataset_id (dataset_manager s) @ ''.'' @ t) (t @ [])
        = (dataset_id (dataset_manager s) @ ''.'' @ t) @ str_replace t (dataset_id (dataset_manager s) @ ''.'' @ t) []"
      by (rule str_replace_prefix)
    with False first show ?thesis
      by (simp add: create_table_id_def py_replace_def create_full_table_id_def)
  qed
qed

lemma create_table_id_suffixed:
  assumes "t \<noteq> []" and "CHR ''$'' \<notin> set t" and "\<not> occurs_in t suffix"
  shows "create_table_id s (t @ ''$'' @ suffix)
           = dataset_id (dataset_manager s) @ ''.'' @ t @ ''$'' @ suffix"
proof -
  let ?new = "dataset_id (dataset_manager s) @ ''.'' @ t"
  from assms(2) have first: "split_first CHR ''$'' (t @ CHR ''$'' # suffix) = t"
    by (rule split_first_append)
  from assms(1,2) have "take (length t) (CHR ''$'' # suffix) \<noteq> t"
    by (cases t) auto
  with assms(1,3) have rest: "str_replace t ?new (CHR ''$'' # suffix) = CHR ''$'' # suffix"
    by (simp add: str_replace_absent)
  from assms(1) have "str_replace t ?new (t @ CHR ''$'' # suffix)
      = ?new @ str_replace t ?new (CHR ''$'' # suffix)"
    by (rule str_replace_prefix)
  with rest first assms(1) show ?thesis
    by (simp add: create_table_id_def py_replace_def create_full_table_id_def)
qed

text \<open>Where the table name occurs inside the suffix, \<open>create_table_id\<close> replaces it
  there too.\<close>

lemma table_name_inside_suffix:
  "destination (session_of (Some ''2020-01-01'') [] Map.empty Map.empty) ''2020'' True None
     = ''project.dataset.2020$project.dataset.20200101''"
  by (simp add: destination_def session_of_simps templated_init_def create_table_id_def
      partitioned_table_name_def split_first_def py_replace_def create_full_table_id_def)

section \<open>Writes to a table that does not exist\<close>

text \<open>
  Claim C1, as stated: every \<open>write_truncate\<close> or \<open>write_append\<close> whose destination's
  unsuffixed base table does not exist raises the table-not-found error and submits no
  write. The error is raised by \<open>table_exists_or_error\<close> as a \<open>ValueError\<close> with the
  message \<open>Table <id> does not exist\<close>.

  The claim fails where another exception comes first. At the facade the SQL is
  rendered before the existence check: below, the table \<open>orders\<close> does not exist and
  the SQL names an unknown placeholder, and the call raises \<open>KeyError\<close>. At
  \<open>DatasetManager\<close> the check reads the table name as the third dot-separated part of
  the destination: for the unqualified destination \<open>orders$20200101\<close> it raises
  \<open>IndexError\<close>. Neither call submits a write.
\<close>

theorem missing_table_other_error_counterexample:
  "base_table (destination (session_of (Some ''2020-01-01'') [] Map.empty Map.empty) ''orders'' True None)
     = Inr ''orders''
   \<and> \<not> dm_table_exists (engine_with [] (\<lambda>r. False)) ''orders''
   \<and> pdm_write_truncate (session_of (Some ''2020-01-01'') [] Map.empty Map.empty)
        (engine_with [] (\<lambda>r. False)) ''orders'' ''SELECT {missing}'' True None
      = (Inl (KeyError ''missing''), session_of (Some ''2020-01-01'') [] Map.empty Map.empty,
         engine_with [] (\<lambda>r. False))
   \<and> dm_write_truncate (engine_with [] (\<lambda>r. False)) ''orders$20200101'' ''SELECT 1''
      = (Inl IndexError, engine_with [] (\<lambda>r. False))"
  by (simp add: example_destination example_base_table dm_table_exists_def engine_with_def
      pdm_write_truncate_unfold session_of_simps templated_init_def template_variables_def
      get_field_def is_digit_def map_add_def Let_def dm_write_truncate_def
      table_exists_or_error_def base_table_def split_first_def py_index_def)

text \<open>
  Claim C1, amended. Let the existence check resolve the destination to the table name
  \<open>base\<close>, and let \<open>base\<close> not exist. Then \<open>DatasetManager.write_truncate\<close> and
  \<open>write_append\<close> raise the table-not-found \<open>ValueError\<close> and leave the engine
  untouched. The facade calls with that destination raise as well, submit no request
  and leave the session as it was; their exception is the table-not-found error when
  the SQL renders, and the rendering error otherwise.
\<close>

theorem missing_table_is_never_written:
  assumes "base_table table_id = Inr base" and "\<not> dm_table_exists e base"
  shows "dm_write_truncate e table_id q
           = (Inl (ValueError (''Table '' @ table_id @ '' does not exist'')), e)
       \<and> dm_write_append e table_id q
           = (Inl (ValueError (''Table '' @ table_id @ '' does not exist'')), e)
       \<and> (destination p t partitioned c = table_id \<longrightarrow>
            pdm_write_truncate p e t sql partitioned c
              = (Inl (case format_py (template_variables (templated p) c) sql of
                        Inl err \<Rightarrow> err
                      | Inr rendered \<Rightarrow> ValueError (''Table '' @ table_id @ '' does not exist'')),
                 p, e)
            \<and> pdm_write_append p e t sql partitioned c
              = (Inl (case format_py (template_variables (templated p) c) sql of
                        Inl err \<Rightarrow> err
                      | Inr rendered \<Rightarrow> ValueError (''Table '' @ table_id @ '' does not exist'')),
                 p, e))"
  using table_exists_or_error_missing [OF assms]
  by (auto simp: dm_write_truncate_def dm_write_append_def pdm_write_truncate_unfold
      pdm_write_append_unfold destination_def Let_def split: sum.splits)

theorem missing_table_is_never_written_witness:
  "base_table ''project.dataset.orders$20200101'' = Inr ''orders''
   \<and> \<not> dm_table_exists (engine_with [''users''] (\<lambda>r. False)) ''orders''
   \<and> destination (session_of (Some ''2020-01-01'') [] Map.empty Map.empty) ''orders'' True None
       = ''project.dataset.orders$20200101''
   \<and> dm_write_append (engine_with [''users''] (\<lambda>r. False)) ''project.dataset.orders$20200101'' ''SELECT 1''
       = (Inl (ValueError ''Table project.dataset.orders$20200101 does not exist''),
          engine_with [''users''] (\<lambda>r. False))
   \<and> pdm_write_truncate (session_of (Some ''2020-01-01'') [] Map.empty Map.empty)
        (engine_with [''users''] (\<lambda>r. False)) ''orders'' ''SELECT {dt}'' True None
       = (Inl (ValueError ''Table project.dataset.orders$20200101 does not exist''),
          session_of (Some ''2020-01-01'') [] Map.empty Map.empty,
          engine_with [''users''] (\<lambda>r. False))"
proof -
  have missing: "\<not> dm_table_exists (engine_with [''users''] (\<lambda>r. False)) ''orders''"
    by (simp add: dm_table_exists_def engine_with_def)
  have rendered: "format_py (template_variables (templated (session_of (Some ''2020-01-01'') [] Map.empty Map.empty)) None)
      ''SELECT {dt}'' = Inr ''SELECT 2020-01-01''"
    by (simp add: session_of_simps templated_init_def template_variables_def
      get_field_def is_digit_def map_add_def Let_def)
  from missing_table_is_never_written [OF example_base_table missing,
      of "''SELECT 1''" "session_of (Some ''2020-01-01'') [] Map.empty Map.empty"
         "''orders''" True None "''SELECT {dt}''"]
    example_base_table missing example_destination rendered
  show ?thesis by simp
qed

section \<open>The write disposition of each kind of write\<close>

text \<open>
  Claim C2, as stated: the job \<open>write_tmp\<close> submits carries a disposition of its own,
  OVERWRITE, unlike the TRUNCATE of \<open>write_truncate\<close>. It does not:
  \<open>DatasetManager.write_tmp\<close> passes \<open>'WRITE_TRUNCATE'\<close>, the very disposition of
  \<open>write_truncate\<close>. The two calls below submit the same job.
\<close>

theorem write_tmp_disposition_counterexample:
  "requests (snd (snd (pdm_write_tmp (session_of (Some ''2020-01-01'') [] Map.empty Map.empty)
        (engine_with [''staging''] (\<lambda>r. False)) ''staging'' ''SELECT 1'' None)))
     = [Write ''project.dataset.staging'' ''SELECT 1'' ''WRITE_TRUNCATE'']
   \<and> requests (snd (snd (pdm_write_truncate (session_of (Some ''2020-01-01'') [] Map.empty Map.empty)
        (engine_with [''staging''] (\<lambda>r. False)) ''staging'' ''SELECT 1'' False None)))
     = [Write ''project.dataset.staging'' ''SELECT 1'' ''WRITE_TRUNCATE'']"
  by (simp add: pdm_write_tmp_unfold pdm_write_truncate_unfold session_of_simps templated_init_def
      create_table_id_def partitioned_table_name_def split_first_def py_replace_def
      create_full_table_id_def table_exists_or_error_def base_table_def py_index_def
      dm_table_exists_def engine_with_def Let_def)

text \<open>
  Claim C2, amended. When its SQL renders, \<open>write_tmp\<close> submits one write, with
  disposition \<open>WRITE_TRUNCATE\<close>. When the SQL renders and the existence check passes,
  \<open>write_truncate\<close> submits one write with \<open>WRITE_TRUNCATE\<close> and \<open>write_append\<close> one
  with \<open>WRITE_APPEND\<close>. What sets \<open>write_tmp\<close> apart is the missing existence check,
  not the disposition.
\<close>

theorem write_dispositions:
  "(format_py (template_variables
        ((templated p)\<lparr>internal_tables :=
           (internal_tables (templated p))(t \<mapsto> create_table_id (templated p) t)\<rparr>) c) sql
      = Inr rendered \<longrightarrow>
      requests (snd (snd (pdm_write_tmp p e t sql c)))
        = requests e @ [Write (create_table_id (templated p) t) rendered ''WRITE_TRUNCATE''])
   \<and> (format_py (template_variables (templated p) c) sql = Inr rendered'
        \<and> table_exists_or_error e (destination p t partitioned c) = Inr () \<longrightarrow>
      requests (snd (snd (pdm_write_truncate p e t sql partitioned c)))
        = requests e @ [Write (destination p t partitioned c) rendered' ''WRITE_TRUNCATE'']
      \<and> requests (snd (snd (pdm_write_append p e t sql partitioned c)))
        = requests e @ [Write (destination p t partitioned c) rendered' ''WRITE_APPEND''])"
  by (simp add: pdm_write_tmp_unfold pdm_write_truncate_unfold pdm_write_append_unfold
      destination_def Let_def)

theorem write_dispositions_witness:
  "requests (snd (snd (pdm_write_tmp (session_of (Some ''2020-01-01'') [] Map.empty Map.empty)
        (engine_with [''orders''] (\<lambda>r. False)) ''staging'' ''SELECT {dt}'' None)))
     = [Write ''project.dataset.staging'' ''SELECT 2020-01-01'' ''WRITE_TRUNCATE'']
   \<and> requests (snd (snd (pdm_write_truncate (session_of (Some ''2020-01-01'') [] Map.empty Map.empty)
        (engine_with [''orders''] (\<lambda>r. False)) ''orders'' ''SELECT {dt}'' True None)))
     = [Write ''project.dataset.orders$20200101'' ''SELECT 2020-01-01'' ''WRITE_TRUNCATE'']
   \<and> requests (snd (snd (pdm_write_append (session_of (Some ''2020-01-01'') [] Map.empty Map.empty)
        (engine_with [''orders''] (\<lambda>r. False)) ''orders'' ''SELECT {dt}'' True None)))
     = [Write ''project.dataset.orders$20200101'' ''SELECT 2020-01-01'' ''WRITE_APPEND'']"
proof -
  let ?p = "session_of (Some ''2020-01-01'') [] Map.empty Map.empty"
  let ?e = "engine_with [''orders''] (\<lambda>r. False)"
  have tmp: "format_py (template_variables
        ((templated ?p)\<lparr>internal_tables :=
           (internal_tables (templated ?p))(''staging'' \<mapsto> create_table_id (templated ?p) ''staging'')\<rparr>)
        None) ''SELECT {dt}'' = Inr ''SELECT 2020-01-01''"
    by (simp add: session_of_simps templated_init_def template_variables_def
        get_field_def is_digit_def map_add_def Let_def)
  have rendered: "format_py (template_variables (templated ?p) None) ''SELECT {dt}''
      = Inr ''SELECT 2020-01-01''"
    by (simp add: session_of_simps templated_init_def template_variables_def
        get_field_def is_digit_def map_add_def Let_def)
  have there: "table_exists_or_error ?e (destination ?p ''orders'' True None) = Inr ()"
    by (simp add: example_destination example_base_table table_exists_or_error_def
        dm_table_exists_def engine_with_def)
  from write_dispositions [of ?p "''staging''" None "''SELECT {dt}''" "''SELECT 2020-01-01''" ?e]
    tmp
  have first: "requests (snd (snd (pdm_write_tmp ?p ?e ''staging'' ''SELECT {dt}'' None)))
     = [Write ''project.dataset.staging'' ''SELECT 2020-01-01'' ''WRITE_TRUNCATE'']"
    by (simp add: create_table_id_staging session_of_simps templated_init_def engine_with_def)
  from write_dispositions [of ?p "''orders''" None "''SELECT {dt}''" _ ?e "''SELECT 2020-01-01''" True]
    rendered there
  have "requests (snd (snd (pdm_write_truncate ?p ?e ''orders'' ''SELECT {dt}'' True None)))
     = [Write ''project.dataset.orders$20200101'' ''SELECT 2020-01-01'' ''WRITE_TRUNCATE'']
   \<and> requests (snd (snd (pdm_write_append ?p ?e ''orders'' ''SELECT {dt}'' True None)))
     = [Write ''project.dataset.orders$20200101'' ''SELECT 2020-01-01'' ''WRITE_APPEND'']"
    by (simp add: example_destination engine_with_def)
  with first show ?thesis by simp
qed

section \<open>The partition suffix of a runtime\<close>

text \<open>
  Claim C3. \<open>get_partition_from_run_datetime_or_none\<close> maps the runtime
  \<open>2020-01-01 10:00:00\<close> to \<open>20200101\<close>, the runtime \<open>2020-01-01\<close> to \<open>20200101\<close>
  and \<open>None\<close> to \<open>None\<close>; for every runtime that is not \<open>None\<close> the result is its first
  ten characters with every \<open>-\<close> removed.
\<close>

theorem suffix_for_runtime:
  "get_partition_from_run_datetime_or_none (Some ''2020-01-01 10:00:00'') = Some ''20200101''
   \<and> get_partition_from_run_datetime_or_none (Some ''2020-01-01'') = Some ''20200101''
   \<and> get_partition_from_run_datetime_or_none None = None
   \<and> get_partition_from_run_datetime_or_none (Some rt)
       = Some (filter (\<lambda>c. c \<noteq> CHR ''-'') (take 10 rt))"
  by (simp add: py_replace_single_char)

section \<open>The destination of a partitioned write\<close>

text \<open>
  Claim C4. In a session the factory built with base runtime \<open>2020-01-01\<close>, the call
  \<open>write_truncate("orders", sql)\<close> with the default \<open>partitioned=True\<close> and no
  \<open>custom_run_datetime\<close> hands the table name \<open>orders$20200101\<close> to the templating layer
  and submits one write whose destination is that name qualified with the dataset id,
  \<open>project.dataset.orders$20200101\<close>. The call gets that far when the table \<open>orders\<close>
  exists and the SQL renders; the project id and the dataset name hold no dot, colon or
  dollar sign.
\<close>

theorem write_truncate_orders_destination:
  assumes "set project \<inter> set ''.:$'' = {}" and "set dataset \<inter> set ''.:$'' = {}"
    and "dataset \<noteq> []"
    and "create_dataset_manager project (Some ''2020-01-01'') (Some dataset) internal external xs fresh
           = (full_id, p)"
    and "dm_table_exists e ''orders''"
    and "format_py (template_variables (templated p) None) sql = Inr rendered"
  shows "partitioned_table_name p ''orders'' True None = ''orders$20200101''
       \<and> pdm_write_truncate p e ''orders'' sql True None
           = (if refuses e (Write (project @ ''.'' @ dataset @ ''.orders$20200101'') rendered ''WRITE_TRUNCATE'')
              then Inl EngineError else Inr Done,
              p,
              e\<lparr>requests := requests e
                   @ [Write (project @ ''.'' @ dataset @ ''.orders$20200101'') rendered ''WRITE_TRUNCATE'']\<rparr>)"
proof -
  from assms(1,2) have chars:
    "CHR ''.'' \<notin> set project" "CHR '':'' \<notin> set project" "CHR ''$'' \<notin> set project"
    "CHR ''.'' \<notin> set dataset" "CHR '':'' \<notin> set dataset" "CHR ''$'' \<notin> set dataset"
    by auto
  have did: "py_replace (project @ '':'' @ dataset) '':'' ''.'' = project @ ''.'' @ dataset"
    using chars(2,5) by (rule factory_dataset_id)
  from assms(3,4) have p: "partition p = Some ''20200101''"
    "dataset_id (dataset_manager (templated p)) = project @ ''.'' @ dataset"
    using did
    by (auto simp: create_dataset_manager_def Let_def templated_init_def py_replace_single_char)
  have name: "partitioned_table_name p ''orders'' True None = ''orders$20200101''"
    by (simp add: partitioned_table_name_def p)
  have dest: "destination p ''orders'' True None = project @ ''.'' @ dataset @ ''.orders$20200101''"
    by (simp add: destination_def name create_table_id_def split_first_def py_replace_def
        create_full_table_id_def p)
  have "base_table (project @ ''.'' @ dataset @ ''.'' @ ''orders'' @ ''$'' @ ''20200101'') = Inr ''orders''"
    using chars by (intro base_table_qualified) simp_all
  then have "table_exists_or_error e (project @ ''.'' @ dataset @ ''.orders$20200101'') = Inr ()"
    using assms(5) by (simp add: table_exists_or_error_def)
  with dest assms(6) name show ?thesis
    by (simp add: pdm_write_truncate_unfold destination_def)
qed

theorem write_truncate_orders_destination_witness:
  "dm_table_exists (engine_with [''orders''] (\<lambda>r. False)) ''orders''
   \<and> pdm_write_truncate (session_of (Some ''2020-01-01'') [] Map.empty Map.empty)
        (engine_with [''orders''] (\<lambda>r. False)) ''orders'' ''SELECT {dt}'' True None
       = (Inr Done, session_of (Some ''2020-01-01'') [] Map.empty Map.empty,
          (engine_with [''orders''] (\<lambda>r. False))
            \<lparr>requests := [Write ''project.dataset.orders$20200101'' ''SELECT 2020-01-01''
                            ''WRITE_TRUNCATE'']\<rparr>)"
proof -
  let ?p = "session_of (Some ''2020-01-01'') [] Map.empty Map.empty"
  let ?e = "engine_with [''orders''] (\<lambda>r. False)"
  have chars: "set ''project'' \<inter> set ''.:$'' = {}" "set ''dataset'' \<inter> set ''.:$'' = {}"
    "''dataset'' \<noteq> []"
    by simp_all
  have built: "create_dataset_manager ''project'' (Some ''2020-01-01'') (Some ''dataset'') []
      Map.empty Map.empty [] = (''project.dataset'', ?p)"
    by (simp add: session_of_def create_dataset_manager_def Let_def example_dataset_id
        del: append.simps)
  have there: "dm_table_exists ?e ''orders''"
    by (simp add: dm_table_exists_def engine_with_def)
  have rendered: "format_py (template_variables (templated ?p) None) ''SELECT {dt}''
      = Inr ''SELECT 2020-01-01''"
    by (simp add: session_of_simps templated_init_def template_variables_def
        get_field_def is_digit_def map_add_def Let_def)
  from write_truncate_orders_destination [OF chars built there rendered] there
  show ?thesis by (simp add: engine_with_def)
qed

section \<open>The partition suffix appended to a table name\<close>

text \<open>
  Claim C5, as stated: the suffix a write appends is exactly eight digits or absent,
  for every write. The code transforms the runtime without validating it and has no
  case for a missing one. With base runtime \<open>2020-1-1\<close> the write goes to
  \<open>orders$202011\<close>, a suffix of six digits; with no runtime at all it goes to
  \<open>orders$None\<close>.
\<close>

theorem partial_suffix_counterexample:
  "requests (snd (snd (pdm_write_truncate (session_of (Some ''2020-1-1'') [] Map.empty Map.empty)
        (engine_with [''orders''] (\<lambda>r. False)) ''orders'' ''SELECT 1'' True None)))
     = [Write ''project.dataset.orders$202011'' ''SELECT 1'' ''WRITE_TRUNCATE'']
   \<and> requests (snd (snd (pdm_write_truncate (session_of None [] Map.empty Map.empty)
        (engine_with [''orders''] (\<lambda>r. False)) ''orders'' ''SELECT 1'' True None)))
     = [Write ''project.dataset.orders$None'' ''SELECT 1'' ''WRITE_TRUNCATE'']"
  by (simp add: pdm_write_truncate_unfold session_of_simps templated_init_def
      create_table_id_def partitioned_table_name_def split_first_def py_replace_def
      create_full_table_id_def table_exists_or_error_def base_table_def py_index_def
      dm_table_exists_def engine_with_def Let_def)

text \<open>
  Claim C5, amended. Take a write whose SQL renders and whose table name is not empty,
  holds no \<open>$\<close> and does not occur inside the suffix. The write that reaches the engine
  has this destination:
  \<^item> partitioned, and the runtime in force (the \<open>custom_run_datetime\<close> of the call, or
    the base runtime when the call gives none) starts with a date \<open>YYYY-MM-DD\<close>: the
    dataset id, the table name, \<open>$\<close> and exactly the eight digits of that date;
  \<^item> partitioned, with neither a \<open>custom_run_datetime\<close> nor a base partition: the dataset
    id, the table name and \<open>$None\<close>;
  \<^item> not partitioned, \<open>write_tmp\<close> among them: the dataset id and the table name, with
    no suffix.
\<close>

theorem partition_suffix_of_destination:
  assumes "t \<noteq> []" and "CHR ''$'' \<notin> set t"
    and "format_py (template_variables (templated p) c) sql = Inr rendered"
  shows "(is_runtime rt
          \<and> (c = Some rt
              \<or> (c = None \<and> partition p = get_partition_from_run_datetime_or_none (Some rt)))
          \<and> \<not> occurs_in t (date_digits rt)
          \<and> table_exists_or_error e
               (dataset_id (dataset_manager (templated p)) @ ''.'' @ t @ ''$'' @ date_digits rt)
              = Inr ()
          \<longrightarrow> length (date_digits rt) = 8 \<and> list_all is_digit (date_digits rt)
            \<and> requests (snd (snd (pdm_write_truncate p e t sql True c)))
                = requests e
                  @ [Write (dataset_id (dataset_manager (templated p)) @ ''.'' @ t @ ''$''
                       @ date_digits rt) rendered ''WRITE_TRUNCATE'']
            \<and> requests (snd (snd (pdm_write_append p e t sql True c)))
                = requests e
                  @ [Write (dataset_id (dataset_manager (templated p)) @ ''.'' @ t @ ''$''
                       @ date_digits rt) rendered ''WRITE_APPEND''])
       \<and> (c = None \<and> partition p = None \<and> \<not> occurs_in t ''None''
          \<and> table_exists_or_error e
               (dataset_id (dataset_manager (templated p)) @ ''.'' @ t @ ''$None'') = Inr ()
          \<longrightarrow> requests (snd (snd (pdm_write_truncate p e t sql True c)))
                = requests e
                  @ [Write (dataset_id (dataset_manager (templated p)) @ ''.'' @ t @ ''$None'')
                       rendered ''WRITE_TRUNCATE'']
            \<and> requests (snd (snd (pdm_write_append p e t sql True c)))
                = requests e
                  @ [Write (dataset_id (dataset_manager (templated p)) @ ''.'' @ t @ ''$None'')
                       rendered ''WRITE_APPEND''])
       \<and> (table_exists_or_error e (dataset_id (dataset_manager (templated p)) @ ''.'' @ t) = Inr ()
          \<longrightarrow> requests (snd (snd (pdm_write_truncate p e t sql False c)))
                = requests e
                  @ [Write (dataset_id (dataset_manager (templated p)) @ ''.'' @ t)
                       rendered ''WRITE_TRUNCATE'']
            \<and> requests (snd (snd (pdm_write_append p e t sql False c)))
                = requests e
                  @ [Write (dataset_id (dataset_manager (templated p)) @ ''.'' @ t)
                       rendered ''WRITE_APPEND''])
       \<and> (format_py (template_variables
               ((templated p)\<lparr>internal_tables := (internal_tables (templated p))
                  (t \<mapsto> dataset_id (dataset_manager (templated p)) @ ''.'' @ t)\<rparr>) c) sql
              = Inr rendered'
          \<longrightarrow> requests (snd (snd (pdm_write_tmp p e t sql c)))
                = requests e
                  @ [Write (dataset_id (dataset_manager (templated p)) @ ''.'' @ t)
                       rendered' ''WRITE_TRUNCATE''])"
    (is "?dated \<and> ?absent \<and> ?unpartitioned \<and> ?tmp")
proof -
  let ?d = "dataset_id (dataset_manager (templated p))"
  have plain: "create_table_id (templated p) t = ?d @ ''.'' @ t"
    using assms(2) by (rule create_table_id_plain)
  have dated: "length (date_digits rt) = 8 \<and> list_all is_digit (date_digits rt)
      \<and> requests (snd (snd (pdm_write_truncate p e t sql True c)))
          = requests e @ [Write (?d @ ''.'' @ t @ ''$'' @ date_digits rt) rendered ''WRITE_TRUNCATE'']
      \<and> requests (snd (snd (pdm_write_append p e t sql True c)))
          = requests e @ [Write (?d @ ''.'' @ t @ ''$'' @ date_digits rt) rendered ''WRITE_APPEND'']"
    if shape: "is_runtime rt"
      and force: "c = Some rt
        \<or> (c = None \<and> partition p = get_partition_from_run_datetime_or_none (Some rt))"
      and apart: "\<not> occurs_in t (date_digits rt)"
      and there: "table_exists_or_error e (?d @ ''.'' @ t @ ''$'' @ date_digits rt) = Inr ()"
  proof -
    note digits = runtime_date_digits [OF shape]
    then have "date_digits rt \<noteq> []" by auto
    with force have "partitioned_table_name p t True c = t @ ''$'' @ date_digits rt"
      by (auto simp: partitioned_table_name_def date_digits_def py_replace_single_char)
    moreover have "create_table_id (templated p) (t @ ''$'' @ date_digits rt)
        = ?d @ ''.'' @ t @ ''$'' @ date_digits rt"
      using assms(1,2) apart by (rule create_table_id_suffixed)
    ultimately show ?thesis
      using digits there assms(3)
      by (simp add: pdm_write_truncate_unfold pdm_write_append_unfold Let_def)
  qed
  have absent: "requests (snd (snd (pdm_write_truncate p e t sql True c)))
          = requests e @ [Write (?d @ ''.'' @ t @ ''$None'') rendered ''WRITE_TRUNCATE'']
      \<and> requests (snd (snd (pdm_write_append p e t sql True c)))
          = requests e @ [Write (?d @ ''.'' @ t @ ''$None'') rendered ''WRITE_APPEND'']"
    if none: "c = None" "partition p = None"
      and apart: "\<not> occurs_in t ''None''"
      and there: "table_exists_or_error e (?d @ ''.'' @ t @ ''$None'') = Inr ()"
  proof -
    from none have "partitioned_table_name p t True c = t @ ''$'' @ ''None''"
      by (simp add: partitioned_table_name_def)
    moreover have "create_table_id (templated p) (t @ ''$'' @ ''None'')
        = ?d @ ''.'' @ t @ ''$'' @ ''None''"
      using assms(1,2) apart by (rule create_table_id_suffixed)
    ultimately show ?thesis
      using there assms(3)
      by (simp add: pdm_write_truncate_unfold pdm_write_append_unfold Let_def)
  qed
  have unpartitioned: "requests (snd (snd (pdm_write_truncate p e t sql False c)))
          = requests e @ [Write (?d @ ''.'' @ t) rendered ''WRITE_TRUNCATE'']
      \<and> requests (snd (snd (pdm_write_append p e t sql False c)))
          = requests e @ [Write (?d @ ''.'' @ t) rendered ''WRITE_APPEND'']"
    if "table_exists_or_error e (?d @ ''.'' @ t) = Inr ()"
    using that plain assms(3)
    by (simp add: pdm_write_truncate_unfold pdm_write_append_unfold partitioned_table_name_def Let_def)
  have tmp: "requests (snd (snd (pdm_write_tmp p e t sql c)))
          = requests e @ [Write (?d @ ''.'' @ t) rendered' ''WRITE_TRUNCATE'']"
    if "format_py (template_variables
          ((templated p)\<lparr>internal_tables := (internal_tables (templated p))(t \<mapsto> ?d @ ''.'' @ t)\<rparr>) c) sql
        = Inr rendered'"
    using that plain by (simp add: pdm_write_tmp_unfold Let_def)
  have 1: ?dated
  proof (intro impI)
    assume h: "is_runtime rt
      \<and> (c = Some rt
          \<or> (c = None \<and> partition p = get_partition_from_run_datetime_or_none (Some rt)))
      \<and> \<not> occurs_in t (date_digits rt)
      \<and> table_exists_or_error e (?d @ ''.'' @ t @ ''$'' @ date_digits rt) = Inr ()"
    show "length (date_digits rt) = 8 \<and> list_all is_digit (date_digits rt)
      \<and> requests (snd (snd (pdm_write_truncate p e t sql True c)))
          = requests e @ [Write (?d @ ''.'' @ t @ ''$'' @ date_digits rt) rendered ''WRITE_TRUNCATE'']
      \<and> requests (snd (snd (pdm_write_append p e t sql True c)))
          = requests e @ [Write (?d @ ''.'' @ t @ ''$'' @ date_digits rt) rendered ''WRITE_APPEND'']"
      by (rule dated [OF conjunct1 [OF h] conjunct1 [OF conjunct2 [OF h]]
            conjunct1 [OF conjunct2 [OF conjunct2 [OF h]]]
            conjunct2 [OF conjunct2 [OF conjunct2 [OF h]]]])
  qed
  have 2: ?absent
  proof (intro impI)
    assume h: "c = None \<and> partition p = None \<and> \<not> occurs_in t ''None''
      \<and> table_exists_or_error e (?d @ ''.'' @ t @ ''$None'') = Inr ()"
    show "requests (snd (snd (pdm_write_truncate p e t sql True c)))
          = requests e @ [Write (?d @ ''.'' @ t @ ''$None'') rendered ''WRITE_TRUNCATE'']
      \<and> requests (snd (snd (pdm_write_append p e t sql True c)))
          = requests e @ [Write (?d @ ''.'' @ t @ ''$None'') rendered ''WRITE_APPEND'']"
      by (rule absent [OF conjunct1 [OF h] conjunct1 [OF conjunct2 [OF h]]
            conjunct1 [OF conjunct2 [OF conjunct2 [OF h]]]
            conjunct2 [OF conjunct2 [OF conjunct2 [OF h]]]])
  qed
  have 3: ?unpartitioned
    by (intro impI) (rule unpartitioned)
  have 4: ?tmp
    by (intro impI) (rule tmp)
  from 1 2 3 4 show ?thesis by (intro conjI)
qed

theorem partition_suffix_of_destination_witness:
  "is_runtime ''2020-03-15 10:00:00''
   \<and> requests (snd (snd (pdm_write_truncate (session_of (Some ''2020-01-01'') [] Map.empty Map.empty)
        (engine_with [''orders''] (\<lambda>r. False)) ''orders'' ''SELECT 1'' True
        (Some ''2020-03-15 10:00:00''))))
     = [Write ''project.dataset.orders$20200315'' ''SELECT 1'' ''WRITE_TRUNCATE'']
   \<and> requests (snd (snd (pdm_write_append (session_of (Some ''2020-01-01'') [] Map.empty Map.empty)
        (engine_with [''orders''] (\<lambda>r. False)) ''orders'' ''SELECT 1'' False
        (Some ''2020-03-15 10:00:00''))))
     = [Write ''project.dataset.orders'' ''SELECT 1'' ''WRITE_APPEND'']
   \<and> requests (snd (snd (pdm_write_tmp (session_of (Some ''2020-01-01'') [] Map.empty Map.empty)
        (engine_with [''orders''] (\<lambda>r. False)) ''orders'' ''SELECT 1''
        (Some ''2020-03-15 10:00:00''))))
     = [Write ''project.dataset.orders'' ''SELECT 1'' ''WRITE_TRUNCATE'']
   \<and> requests (snd (snd (pdm_write_truncate (session_of None [] Map.empty Map.empty)
        (engine_with [''orders''] (\<lambda>r. False)) ''orders'' ''SELECT 1'' True None)))
     = [Write ''project.dataset.orders$None'' ''SELECT 1'' ''WRITE_TRUNCATE'']"
proof -
  let ?p = "session_of (Some ''2020-01-01'') [] Map.empty Map.empty"
  let ?q = "session_of None [] Map.empty Map.empty"
  let ?e = "engine_with [''orders''] (\<lambda>r. False)"
  let ?c = "Some ''2020-03-15 10:00:00''"
  have name: "''orders'' \<noteq> []" "CHR ''$'' \<notin> set ''orders''"
    by simp_all
  have sql: "format_py kw ''SELECT 1'' = Inr ''SELECT 1''" for kw
    by (rule format_py_brace_free) (simp add: brace_free_def)
  have shape: "is_runtime ''2020-03-15 10:00:00''"
    by (simp add: is_runtime_def is_digit_def)
  have digits: "date_digits ''2020-03-15 10:00:00'' = ''20200315''"
    by (simp add: date_digits_def)
  have apart: "\<not> occurs_in ''orders'' ''20200315''" "\<not> occurs_in ''orders'' ''None''"
    by simp_all
  have there: "table_exists_or_error ?e ''project.dataset.orders$20200315'' = Inr ()"
    "table_exists_or_error ?e ''project.dataset.orders$None'' = Inr ()"
    "table_exists_or_error ?e ''project.dataset.orders'' = Inr ()"
    by (simp_all add: table_exists_or_error_def base_table_def split_first_def py_index_def
        dm_table_exists_def engine_with_def)
  have ids: "dataset_id (dataset_manager (templated ?p)) = ''project.dataset''"
    "dataset_id (dataset_manager (templated ?q)) = ''project.dataset''"
    "partition ?q = None"
    by (simp_all add: session_of_simps templated_init_def)
  from partition_suffix_of_destination [where p = ?p and c = ?c and e = ?e
        and rt = "''2020-03-15 10:00:00''" and sql = "''SELECT 1''" and rendered' = "''SELECT 1''",
      OF name sql]
    partition_suffix_of_destination [where p = ?q and c = None and e = ?e
        and sql = "''SELECT 1''", OF name sql]
    shape digits apart there ids sql
  show ?thesis by (simp add: engine_with_def)
qed

section \<open>Rendering a rendered string again\<close>

text \<open>
  Claim C6, as stated: whenever rendering succeeds, rendering its output again with the
  same context gives the same string. An escaped brace breaks this: \<open>{{dt}}\<close> renders
  to the text \<open>{dt}\<close>, which a second pass takes for a placeholder and replaces.
\<close>

theorem rendering_twice_counterexample:
  "format_py (template_variables (templated (session_of (Some ''2020-01-01'') []
        Map.empty Map.empty)) None) ''SELECT {{dt}}'' = Inr ''SELECT {dt}''
   \<and> format_py (template_variables (templated (session_of (Some ''2020-01-01'') []
        Map.empty Map.empty)) None) ''SELECT {dt}'' = Inr ''SELECT 2020-01-01''"
  by (simp add: session_of_simps templated_init_def template_variables_def
      get_field_def is_digit_def map_add_def Let_def)

text \<open>
  Claim C6, amended. Let rendering succeed on an SQL string that holds no escaped brace
  (neither \<open>{{\<close> nor \<open>}}\<close>), in a context none of whose values holds a brace. Then
  the output holds no brace, and rendering it again gives the same string, with the
  same context and with any other.
\<close>

theorem rendering_twice:
  assumes "format_py (template_variables s c) sql = Inr out"
    and "\<not> doubled_brace sql"
    and "\<forall>v\<in>ran (template_variables s c). brace_free (py_str v)"
  shows "brace_free out
       \<and> format_py (template_variables s c) out = Inr out
       \<and> format_py kw out = Inr out"
proof -
  from format_py_no_escape [OF assms] have "brace_free out" .
  then show ?thesis by (simp add: format_py_brace_free)
qed

theorem rendering_twice_witness:
  "format_py (template_variables (templated (session_of (Some ''2020-01-01'') [''orders'']
        Map.empty Map.empty)) None) ''SELECT * FROM {orders} WHERE d = {dt}''
     = Inr ''SELECT * FROM project.dataset.orders WHERE d = 2020-01-01''
   \<and> \<not> doubled_brace ''SELECT * FROM {orders} WHERE d = {dt}''
   \<and> format_py (template_variables (templated (session_of (Some ''2020-01-01'') [''orders'']
        Map.empty Map.empty)) None) ''SELECT * FROM project.dataset.orders WHERE d = 2020-01-01''
     = Inr ''SELECT * FROM project.dataset.orders WHERE d = 2020-01-01''"
proof -
  let ?s = "templated (session_of (Some ''2020-01-01'') [''orders''] Map.empty Map.empty)"
  have rendered: "format_py (template_variables ?s None) ''SELECT * FROM {orders} WHERE d = {dt}''
      = Inr ''SELECT * FROM project.dataset.orders WHERE d = 2020-01-01''"
    by (simp add: session_of_simps templated_init_def template_variables_def
        create_full_table_id_def get_field_def is_digit_def map_add_def Let_def)
  have plain: "\<not> doubled_brace ''SELECT * FROM {orders} WHERE d = {dt}''"
    by simp
  have vals: "\<forall>v\<in>ran (template_variables ?s None). brace_free (py_str v)"
    by (auto simp: ran_def session_of_simps templated_init_def template_variables_def
        create_full_table_id_def map_add_def brace_free_def Let_def split: if_splits)
  from rendering_twice [OF rendered plain vals] rendered plain show ?thesis by simp
qed

section \<open>Precedence in the template context\<close>

text \<open>
  Claim C7. In the context \<open>template_variables\<close> builds, an entry of \<open>extras\<close> wins over
  entries of the internal and external tables of the same name; \<open>dt\<close> is set last, to
  the effective runtime, and so shadows an extra called \<open>dt\<close>. With \<open>t\<close> mapped to
  \<open>A\<close> in the internal tables and to \<open>B\<close> in the extras, \<open>{t}\<close> renders to \<open>B\<close>.
\<close>

theorem context_merge_precedence:
  "(extras s k = Some v \<and> k \<noteq> ''dt'' \<longrightarrow> template_variables s c k = Some v)
   \<and> template_variables s c ''dt'' = Some (of_optional (py_or c (run_datetime s)))
   \<and> (internal_tables s ''t'' = Some a \<and> extras s ''t'' = Some (PyStr b)
        \<longrightarrow> format_py (template_variables s c) ''{t}'' = Inr b)"
  by (simp add: template_variables_def map_add_def get_field_def is_digit_def Let_def)

theorem context_merge_precedence_witness:
  "template_variables
      \<lparr>dataset_manager = \<lparr>dataset_id = ''project.dataset''\<rparr>,
       internal_tables = [''t'' \<mapsto> ''A''], external_tables = [''t'' \<mapsto> ''E''],
       extras = [''t'' \<mapsto> PyStr ''B'', ''dt'' \<mapsto> PyStr ''shadowed''],
       run_datetime = Some ''2020-01-01''\<rparr> None ''t'' = Some (PyStr ''B'')
   \<and> template_variables
      \<lparr>dataset_manager = \<lparr>dataset_id = ''project.dataset''\<rparr>,
       internal_tables = [''t'' \<mapsto> ''A''], external_tables = [''t'' \<mapsto> ''E''],
       extras = [''t'' \<mapsto> PyStr ''B'', ''dt'' \<mapsto> PyStr ''shadowed''],
       run_datetime = Some ''2020-01-01''\<rparr> None ''dt'' = Some (PyStr ''2020-01-01'')
   \<and> format_py (template_variables
      \<lparr>dataset_manager = \<lparr>dataset_id = ''project.dataset''\<rparr>,
       internal_tables = [''t'' \<mapsto> ''A''], external_tables = [''t'' \<mapsto> ''E''],
       extras = [''t'' \<mapsto> PyStr ''B'', ''dt'' \<mapsto> PyStr ''shadowed''],
       run_datetime = Some ''2020-01-01''\<rparr> None) ''{t}'' = Inr ''B''"
  using context_merge_precedence [of
      "\<lparr>dataset_manager = \<lparr>dataset_id = ''project.dataset''\<rparr>,
       internal_tables = [''t'' \<mapsto> ''A''], external_tables = [''t'' \<mapsto> ''E''],
       extras = [''t'' \<mapsto> PyStr ''B'', ''dt'' \<mapsto> PyStr ''shadowed''],
       run_datetime = Some ''2020-01-01''\<rparr>" "''t''" "PyStr ''B''" None "''A''" "''B''"]
  by simp

section \<open>A runtime given to one call\<close>

text \<open>
  Claim C8. Let \<open>custom_run_datetime\<close> be a runtime of an accepted format, in a session
  with base runtime \<open>rt\<close>, and let the SQL hold the placeholder \<open>{dt}\<close>. The call given
  it submits a write whose destination carries the suffix of \<open>custom_run_datetime\<close>
  and whose SQL has \<open>custom_run_datetime\<close> in the place of \<open>{dt}\<close>, and it returns the
  session as it was. A call without \<open>custom_run_datetime\<close> on the session the first
  call returned submits a write whose destination carries the suffix of the base
  runtime and whose SQL has the base runtime in the place of \<open>{dt}\<close>. No call of any
  kind changes the base runtime or the base partition. The destination is the decorated
  name as \<open>create_table_id\<close> qualifies it: the dataset id, the table name, \<open>$\<close> and
  the suffix, for a table name that is not empty, holds no \<open>$\<close> and does not occur
  inside the suffix.
\<close>

theorem custom_run_datetime_for_one_call:
  assumes "is_runtime cr"
    and "run_datetime (templated p) = Some rt"
    and "partition p = get_partition_from_run_datetime_or_none (Some rt)"
    and "format_py (template_variables (templated p) (Some cr)) pre = Inr pre1"
    and "format_py (template_variables (templated p) (Some cr)) post = Inr post1"
    and "format_py (template_variables (templated p) None) pre = Inr pre2"
    and "format_py (template_variables (templated p) None) post = Inr post2"
    and "table_exists_or_error e
           (create_table_id (templated p) (t @ ''$'' @ date_digits cr)) = Inr ()"
    and "table_exists_or_error e2
           (create_table_id (templated p) (t2 @ ''$'' @ date_digits rt)) = Inr ()"
  shows "pdm_write_truncate p e t (pre @ ''{dt}'' @ post) True (Some cr)
           = (if refuses e (Write (create_table_id (templated p) (t @ ''$'' @ date_digits cr))
                              (pre1 @ cr @ post1) ''WRITE_TRUNCATE'')
              then Inl EngineError else Inr Done,
              p,
              e\<lparr>requests := requests e
                   @ [Write (create_table_id (templated p) (t @ ''$'' @ date_digits cr))
                        (pre1 @ cr @ post1) ''WRITE_TRUNCATE'']\<rparr>)
       \<and> pdm_write_append p e t (pre @ ''{dt}'' @ post) True (Some cr)
           = (if refuses e (Write (create_table_id (templated p) (t @ ''$'' @ date_digits cr))
                              (pre1 @ cr @ post1) ''WRITE_APPEND'')
              then Inl EngineError else Inr Done,
              p,
              e\<lparr>requests := requests e
                   @ [Write (create_table_id (templated p) (t @ ''$'' @ date_digits cr))
                        (pre1 @ cr @ post1) ''WRITE_APPEND'']\<rparr>)
       \<and> requests (snd (snd (pdm_write_truncate
              (fst (snd (pdm_write_truncate p e t (pre @ ''{dt}'' @ post) True (Some cr))))
              e2 t2 (pre @ ''{dt}'' @ post) True None)))
           = requests e2
             @ [Write (create_table_id (templated p) (t2 @ ''$'' @ date_digits rt))
                  (pre2 @ rt @ post2) ''WRITE_TRUNCATE'']
       \<and> (t \<noteq> [] \<and> CHR ''$'' \<notin> set t \<and> \<not> occurs_in t (date_digits cr) \<longrightarrow>
            create_table_id (templated p) (t @ ''$'' @ date_digits cr)
              = dataset_id (dataset_manager (templated p)) @ ''.'' @ t @ ''$'' @ date_digits cr)
       \<and> (t2 \<noteq> [] \<and> CHR ''$'' \<notin> set t2 \<and> \<not> occurs_in t2 (date_digits rt) \<longrightarrow>
            create_table_id (templated p) (t2 @ ''$'' @ date_digits rt)
              = dataset_id (dataset_manager (templated p)) @ ''.'' @ t2 @ ''$'' @ date_digits rt)
       \<and> partition (fst (snd (step p e op))) = partition p
       \<and> run_datetime (templated (fst (snd (step p e op)))) = run_datetime (templated p)"
    (is "?truncate \<and> ?append \<and> ?later \<and> ?dest1 \<and> ?dest2 \<and> ?frame1 \<and> ?frame2")
proof -
  let ?D1 = "create_table_id (templated p) (t @ ''$'' @ date_digits cr)"
  let ?D2 = "create_table_id (templated p) (t2 @ ''$'' @ date_digits rt)"
  let ?sql = "pre @ ''{dt}'' @ post"
  from runtime_date_digits [OF assms(1)] have digits: "date_digits cr \<noteq> []" by auto
  then have given: "cr \<noteq> []" by (auto simp: date_digits_def)
  then have "template_variables (templated p) (Some cr) ''dt'' = Some (PyStr cr)"
    by (simp add: template_variables_def Let_def)
  from format_py_dt [OF this assms(4,5)]
  have sql1: "format_py (template_variables (templated p) (Some cr)) ?sql = Inr (pre1 @ cr @ post1)" .
  from assms(2) have "template_variables (templated p) None ''dt'' = Some (PyStr rt)"
    by (simp add: template_variables_def Let_def)
  from format_py_dt [OF this assms(6,7)]
  have sql2: "format_py (template_variables (templated p) None) ?sql = Inr (pre2 @ rt @ post2)" .
  from digits have name1: "partitioned_table_name p t True (Some cr) = t @ ''$'' @ date_digits cr"
    by (simp add: partitioned_table_name_def date_digits_def py_replace_single_char)
  from assms(3) have name2: "partitioned_table_name p t2 True None = t2 @ ''$'' @ date_digits rt"
    by (simp add: partitioned_table_name_def date_digits_def py_replace_single_char)
  have 1: ?truncate
    using sql1 name1 assms(8) by (simp add: pdm_write_truncate_unfold Let_def)
  have 2: ?append
    using sql1 name1 assms(8) by (simp add: pdm_write_append_unfold Let_def)
  from 1 have same: "fst (snd (pdm_write_truncate p e t ?sql True (Some cr))) = p"
    by simp
  have 3: ?later
    unfolding same using sql2 name2 assms(9) by (simp add: pdm_write_truncate_unfold Let_def)
  have 4: ?dest1
    by (intro impI, elim conjE) (rule create_table_id_suffixed)
  have 5: ?dest2
    by (intro impI, elim conjE) (rule create_table_id_suffixed)
  have 6: ?frame1 and 7: ?frame2
    by (rule step_frame)+
  from 1 2 3 4 5 6 7 show ?thesis by (intro conjI)
qed

theorem custom_run_datetime_for_one_call_witness:
  "is_runtime ''2020-03-15''
   \<and> pdm_write_truncate (session_of (Some ''2020-01-01'') [] Map.empty Map.empty)
        (engine_with [''orders''] (\<lambda>r. False)) ''orders'' ''SELECT {dt} AS d'' True
        (Some ''2020-03-15'')
       = (Inr Done, session_of (Some ''2020-01-01'') [] Map.empty Map.empty,
          (engine_with [''orders''] (\<lambda>r. False))
            \<lparr>requests := [Write ''project.dataset.orders$20200315'' ''SELECT 2020-03-15 AS d''
                            ''WRITE_TRUNCATE'']\<rparr>)
   \<and> requests (snd (snd (pdm_write_truncate
        (fst (snd (pdm_write_truncate (session_of (Some ''2020-01-01'') [] Map.empty Map.empty)
           (engine_with [''orders''] (\<lambda>r. False)) ''orders'' ''SELECT {dt} AS d'' True
           (Some ''2020-03-15''))))
        (engine_with [''orders''] (\<lambda>r. False)) ''orders'' ''SELECT {dt} AS d'' True None)))
       = [Write ''project.dataset.orders$20200101'' ''SELECT 2020-01-01 AS d'' ''WRITE_TRUNCATE'']"
proof -
  let ?p = "session_of (Some ''2020-01-01'') [] Map.empty Map.empty"
  let ?e = "engine_with [''orders''] (\<lambda>r. False)"
  have shape: "is_runtime ''2020-03-15''"
    by (simp add: is_runtime_def is_digit_def)
  have base: "run_datetime (templated ?p) = Some ''2020-01-01''"
    "partition ?p = get_partition_from_run_datetime_or_none (Some ''2020-01-01'')"
    by (simp_all add: session_of_simps templated_init_def)
  have pre: "format_py kw ''SELECT '' = Inr ''SELECT ''" for kw
    by (rule format_py_brace_free) (simp add: brace_free_def)
  have post: "format_py kw '' AS d'' = Inr '' AS d''" for kw
    by (rule format_py_brace_free) (simp add: brace_free_def)
  have digits: "date_digits ''2020-03-15'' = ''20200315''" "date_digits ''2020-01-01'' = ''20200101''"
    by (simp_all add: date_digits_def)
  have ids: "create_table_id (templated ?p) (''orders'' @ ''$'' @ ''20200315'')
      = ''project.dataset.orders$20200315''"
    "create_table_id (templated ?p) (''orders'' @ ''$'' @ ''20200101'')
      = ''project.dataset.orders$20200101''"
    by (simp_all add: session_of_simps templated_init_def create_table_id_def split_first_def
        py_replace_def create_full_table_id_def)
  have there: "table_exists_or_error ?e ''project.dataset.orders$20200315'' = Inr ()"
    "table_exists_or_error ?e ''project.dataset.orders$20200101'' = Inr ()"
    by (simp_all add: table_exists_or_error_def base_table_def split_first_def py_index_def
        dm_table_exists_def engine_with_def)
  have there': "table_exists_or_error ?e
      (create_table_id (templated ?p) (''orders'' @ ''$'' @ date_digits ''2020-03-15'')) = Inr ()"
    "table_exists_or_error ?e
      (create_table_id (templated ?p) (''orders'' @ ''$'' @ date_digits ''2020-01-01'')) = Inr ()"
    unfolding digits ids by (rule there)+
  note inst = custom_run_datetime_for_one_call [where op = Remove_dataset,
      OF shape base pre post pre post there', unfolded digits ids]
  have empty: "requests ?e = []" "\<not> refuses ?e r" for r
    by (simp_all add: engine_with_def)
  from inst [THEN conjunct1] empty
  have first: "pdm_write_truncate ?p ?e ''orders'' ''SELECT {dt} AS d'' True (Some ''2020-03-15'')
       = (Inr Done, ?p,
          ?e\<lparr>requests := [Write ''project.dataset.orders$20200315'' ''SELECT 2020-03-15 AS d''
                            ''WRITE_TRUNCATE'']\<rparr>)"
    by simp
  from inst [THEN conjunct2, THEN conjunct2, THEN conjunct1] empty
  have later: "requests (snd (snd (pdm_write_truncate
        (fst (snd (pdm_write_truncate ?p ?e ''orders'' ''SELECT {dt} AS d'' True
           (Some ''2020-03-15''))))
        ?e ''orders'' ''SELECT {dt} AS d'' True None)))
       = [Write ''project.dataset.orders$20200101'' ''SELECT 2020-01-01 AS d'' ''WRITE_TRUNCATE'']"
    by simp
  from shape first later show ?thesis by (intro conjI)
qed

section \<open>The internal tables of a session\<close>

text \<open>
  Claim C9, as stated: after \<open>write_tmp("staging", sql)\<close> every later \<open>{staging}\<close>
  renders to the id that call registered. The context lets external tables and extras
  win over internal tables: in a session with an external table called \<open>staging\<close>
  the call registers \<open>project.dataset.staging\<close>, and \<open>{staging}\<close> still renders to
  the external id.
\<close>

theorem shadowed_alias_counterexample:
  "internal_tables
     (templated (fst (snd (pdm_write_tmp
        (session_of (Some ''2020-01-01'') [] [''staging'' \<mapsto> ''other.archive.staging''] Map.empty)
        (engine_with [] (\<lambda>r. False)) ''staging'' ''SELECT 1'' None))))
     ''staging'' = Some ''project.dataset.staging''
   \<and> format_py
       (template_variables
          (templated (fst (snd (pdm_write_tmp
             (session_of (Some ''2020-01-01'') [] [''staging'' \<mapsto> ''other.archive.staging''] Map.empty)
             (engine_with [] (\<lambda>r. False)) ''staging'' ''SELECT 1'' None))))
          None)
       ''SELECT * FROM {staging}''
     = Inr ''SELECT * FROM other.archive.staging''"
  by (simp add: pdm_write_tmp_unfold session_of_simps templated_init_def template_variables_def
      create_table_id_staging get_field_def is_digit_def map_add_def Let_def)

text \<open>
  Claim C9, amended. Over any sequence of calls the names in \<open>internal_tables\<close> only
  grow, and a call other than \<open>write_tmp\<close> leaves the map as it was. After
  \<open>write_tmp("staging", sql)\<close>, in a session with neither an external table nor an
  extra called \<open>staging\<close>, the map sends \<open>staging\<close> to the dataset id followed by
  \<open>.staging\<close> after any further calls, and a statement with \<open>{staging}\<close> in it renders
  with that id in its place.
\<close>

theorem internal_tables_only_grow:
  assumes "external_tables (templated p) ''staging'' = None"
    and "extras (templated p) ''staging'' = None"
    and "later = session_after (fst (snd (step p e (Write_tmp ''staging'' sql c)))) calls"
    and "format_py (template_variables (templated later) c') pre = Inr pre'"
    and "format_py (template_variables (templated later) c') post = Inr post'"
  shows "dom (internal_tables (templated q))
           \<subseteq> dom (internal_tables (templated (session_after q calls')))
       \<and> (\<not> is_write_tmp op \<longrightarrow>
            internal_tables (templated (fst (snd (step q e' op)))) = internal_tables (templated q))
       \<and> internal_tables (templated later) ''staging''
           = Some (dataset_id (dataset_manager (templated p)) @ ''.staging'')
       \<and> format_py (template_variables (templated later) c') (pre @ ''{staging}'' @ post)
           = Inr (pre' @ dataset_id (dataset_manager (templated p)) @ ''.staging'' @ post')"
proof -
  let ?p1 = "fst (snd (step p e (Write_tmp ''staging'' sql c)))"
  let ?id = "dataset_id (dataset_manager (templated p)) @ ''.staging''"
  let ?kw = "template_variables (templated later) c'"
  have frame1: "dataset_manager (templated ?p1) = dataset_manager (templated p)"
    by (rule step_frame)
  then have id1: "create_table_id (templated ?p1) ''staging'' = ?id"
    by (simp add: create_table_id_staging)
  have "internal_tables (templated ?p1) ''staging'' = Some (create_table_id (templated p) ''staging'')"
    by (simp add: step_internal_tables del: step.simps)
  with id1 have "internal_tables (templated ?p1) ''staging''
      = Some (create_table_id (templated ?p1) ''staging'')"
    by (simp add: create_table_id_staging)
  from session_after_alias [OF this, of calls] id1 assms(3)
  have registered: "internal_tables (templated later) ''staging'' = Some ?id" by simp
  from session_after_frame [of ?p1 calls] assms(1-3)
  have "external_tables (templated later) ''staging'' = None"
    "extras (templated later) ''staging'' = None"
    by (simp_all add: step_frame del: step.simps)
  with registered have "?kw ''staging'' = Some (PyStr ?id)"
    by (simp add: template_variables_def map_add_def Let_def)
  then have field: "format_py ?kw ''{staging}'' = Inr ?id"
    by (simp add: get_field_def is_digit_def)
  from format_py_append [OF field, of post] assms(5)
  have "format_py ?kw (''{staging}'' @ post) = Inr (?id @ post')" by simp
  with format_py_append [OF assms(4), of "''{staging}'' @ post"]
  have "format_py ?kw (pre @ ''{staging}'' @ post) = Inr (pre' @ ?id @ post')" by simp
  moreover have "\<not> is_write_tmp op \<longrightarrow>
      internal_tables (templated (fst (snd (step q e' op)))) = internal_tables (templated q)"
    by (cases op) (simp_all add: step_internal_tables del: step.simps)
  ultimately show ?thesis using registered session_after_dom [of q calls'] by simp
qed

theorem internal_tables_only_grow_witness:
  "format_py
     (template_variables
        (templated (session_after
           (fst (snd (step (session_of (Some ''2020-01-01'') [] Map.empty Map.empty)
              (engine_with [] (\<lambda>r. False)) (Write_tmp ''staging'' ''SELECT 1'' None))))
           [(Collect ''SELECT 1'' None, engine_with [''staging''] (\<lambda>r. False))]))
        None)
     ''SELECT * FROM {staging} WHERE d = {dt}''
     = Inr ''SELECT * FROM project.dataset.staging WHERE d = 2020-01-01''
   \<and> dom (internal_tables (templated (session_of (Some ''2020-01-01'') [''orders''] Map.empty Map.empty)))
       \<subseteq> dom (internal_tables (templated (session_after
             (session_of (Some ''2020-01-01'') [''orders''] Map.empty Map.empty)
             [(Write_tmp ''staging'' ''SELECT 1'' None, engine_with [] (\<lambda>r. False))])))"
proof -
  let ?p = "session_of (Some ''2020-01-01'') [] Map.empty Map.empty"
  let ?q = "session_of (Some ''2020-01-01'') [''orders''] Map.empty Map.empty"
  let ?e = "engine_with [] (\<lambda>r. False)"
  let ?later = "session_after (fst (snd (step ?p ?e (Write_tmp ''staging'' ''SELECT 1'' None))))
     [(Collect ''SELECT 1'' None, engine_with [''staging''] (\<lambda>r. False))]"
  have unshadowed: "external_tables (templated ?p) ''staging'' = None"
    "extras (templated ?p) ''staging'' = None"
    by (simp_all add: session_of_simps templated_init_def)
  have "run_datetime (templated ?later) = Some ''2020-01-01''"
    using session_after_frame [of "fst (snd (step ?p ?e (Write_tmp ''staging'' ''SELECT 1'' None)))"
        "[(Collect ''SELECT 1'' None, engine_with [''staging''] (\<lambda>r. False))]"]
    by (simp add: step_frame session_of_simps templated_init_def del: step.simps session_after.simps)
  then have dt: "template_variables (templated ?later) None ''dt'' = Some (PyStr ''2020-01-01'')"
    by (simp add: template_variables_def Let_def)
  have pre: "format_py (template_variables (templated ?later) None) ''SELECT * FROM ''
      = Inr ''SELECT * FROM ''"
    by (rule format_py_brace_free) (simp add: brace_free_def)
  have post: "format_py (template_variables (templated ?later) None) '' WHERE d = {dt}''
      = Inr '' WHERE d = 2020-01-01''"
    using dt by (simp add: get_field_def is_digit_def del: step.simps session_after.simps)
  from internal_tables_only_grow [OF unshadowed refl pre post,
      of ?q "[(Write_tmp ''staging'' ''SELECT 1'' None, ?e)]" "Collect ''SELECT 1'' None" ?e]
  show ?thesis
    by (simp add: session_of_simps templated_init_def del: step.simps session_after.simps)
qed

section \<open>\<open>write_tmp\<close> registers the alias before anything can fail\<close>

text \<open>
  Claim C10. \<open>write_tmp\<close> stores the alias in \<open>internal_tables\<close> before it renders the
  SQL and before it submits the write. Whenever the call raises, whatever the exception
  (rendering or engine), the session it leaves behind holds the alias: nothing is rolled
  back. The first half is \<open>TemplatedDatasetManager.write_tmp\<close>, the second the facade
  call that delegates to it.
\<close>

theorem write_tmp_keeps_alias_on_error:
  "(tdm_write_tmp s e t sql c = (Inl err, s', e') \<longrightarrow>
      internal_tables s' = (internal_tables s)(t \<mapsto> create_table_id s t))
   \<and> (pdm_write_tmp p e t sql c = (Inl err, p', e') \<longrightarrow>
      internal_tables (templated p')
        = (internal_tables (templated p))(t \<mapsto> create_table_id (templated p) t))"
  by (auto simp: tdm_write_tmp_unfold pdm_write_tmp_unfold Let_def split: sum.splits if_splits)

theorem write_tmp_keeps_alias_on_error_witness:
  "tdm_write_tmp (templated (session_of (Some ''2020-01-01'') [] Map.empty Map.empty))
      (engine_with [] (\<lambda>r. True)) ''staging'' ''SELECT 1'' None
     = (Inl EngineError,
        (templated (session_of (Some ''2020-01-01'') [] Map.empty Map.empty))
          \<lparr>internal_tables := [''staging'' \<mapsto> ''project.dataset.staging'']\<rparr>,
        (engine_with [] (\<lambda>r. True))
          \<lparr>requests := [Write ''project.dataset.staging'' ''SELECT 1'' ''WRITE_TRUNCATE'']\<rparr>)
   \<and> fst (pdm_write_tmp (session_of (Some ''2020-01-01'') [] Map.empty Map.empty)
         (engine_with [] (\<lambda>r. False)) ''staging'' ''SELECT {missing}'' None)
       = Inl (KeyError ''missing'')
   \<and> internal_tables (templated (fst (snd (pdm_write_tmp
         (session_of (Some ''2020-01-01'') [] Map.empty Map.empty)
         (engine_with [] (\<lambda>r. False)) ''staging'' ''SELECT {missing}'' None)))) ''staging''
       = Some ''project.dataset.staging''"
proof -
  let ?p = "session_of (Some ''2020-01-01'') [] Map.empty Map.empty"
  let ?call = "pdm_write_tmp ?p (engine_with [] (\<lambda>r. False)) ''staging'' ''SELECT {missing}'' None"
  let ?inner = "tdm_write_tmp (templated ?p) (engine_with [] (\<lambda>r. True)) ''staging'' ''SELECT 1'' None"
  have refused: "?inner
     = (Inl EngineError,
        (templated ?p)\<lparr>internal_tables := [''staging'' \<mapsto> ''project.dataset.staging'']\<rparr>,
        (engine_with [] (\<lambda>r. True))
          \<lparr>requests := [Write ''project.dataset.staging'' ''SELECT 1'' ''WRITE_TRUNCATE'']\<rparr>)"
    by (simp add: tdm_write_tmp_unfold session_of_simps templated_init_def create_table_id_staging
        engine_with_def Let_def)
  have failed: "fst ?call = Inl (KeyError ''missing'')"
    by (simp add: pdm_write_tmp_unfold session_of_simps templated_init_def template_variables_def
        get_field_def is_digit_def map_add_def Let_def)
  then have call: "?call = (Inl (KeyError ''missing''), fst (snd ?call), snd (snd ?call))"
    by (simp add: prod_eq_iff)
  from write_tmp_keeps_alias_on_error [where s = "templated ?p" and e = "engine_with [] (\<lambda>r. True)"
      and t = "''staging''" and sql = "''SELECT 1''" and c = None and err = EngineError
      and s' = "fst (snd ?inner)" and e' = "snd (snd ?inner)"]
    write_tmp_keeps_alias_on_error [where p = ?p and e = "engine_with [] (\<lambda>r. False)"
      and t = "''staging''" and sql = "''SELECT {missing}''" and c = None
      and err = "KeyError ''missing''" and p' = "fst (snd ?call)" and e' = "snd (snd ?call)"]
    call refused failed
  show ?thesis
    by (simp add: session_of_simps templated_init_def create_table_id_staging)
qed

end
